theory Spec2Isabelle
  imports Complex_Main "HOL-Library.Word"
begin

section \<open>Data model of bot.js\<close>

text \<open>
  A JavaScript number is a double of IEEE 754. It is modelled by the real number it stands
  for, and every operation of the source that rounds is written with its rounding (see the
  next section). The values that are not real numbers (\<^verbatim>\<open>NaN\<close>, the infinities of an
  overflow) and the sign of zero are not represented. A JavaScript string whose content
  matters (the host name, which is trimmed) is its sequence of UTF-16 code units; texts
  that are only passed along are plain strings.
\<close>

type_synonym js_string = "16 word list"

text \<open>A position object \<^verbatim>\<open>{ x, y, z }\<close>.\<close>

record point =
  px :: real
  py :: real
  pz :: real

text \<open>
  The object \<^verbatim>\<open>botState\<close>. A property that holds an object or \<^verbatim>\<open>null\<close> is an option
  (\<^verbatim>\<open>currentTarget\<close> starts as \<^verbatim>\<open>null\<close>; \<^verbatim>\<open>center\<close> is tested for truthiness by the
  move handler before it is read).
\<close>

record bot_state =
  connected :: bool
  position :: point
  center :: "point option"
  isPatrolling :: bool
  currentTarget :: "point option"
  health :: real
  food :: real
  lastChat :: string
  players :: "string list"
  serverConfigured :: bool
  switchingServers :: bool

text \<open>
  The sections of \<^verbatim>\<open>config.json\<close> that the handlers read or write. (The \<^verbatim>\<open>bot\<close> and
  \<^verbatim>\<open>web\<close> sections are only passed to the libraries.)
\<close>

record config =
  server_host :: js_string     \<comment> \<open>\<^verbatim>\<open>config.server.host\<close>\<close>
  server_port :: real          \<comment> \<open>\<^verbatim>\<open>config.server.port\<close>\<close>
  patrol_radius :: real        \<comment> \<open>\<^verbatim>\<open>config.patrol.radius\<close>\<close>
  patrol_centerX :: real       \<comment> \<open>\<^verbatim>\<open>config.patrol.centerX\<close>\<close>
  patrol_centerY :: real
  patrol_centerZ :: real

text \<open>
  The global variable \<^verbatim>\<open>bot\<close>: undefined until \<^verbatim>\<open>createNewBot\<close> has run. Of the
  library object only the presence of the pathfinder plugin is read by this file.
\<close>

record bot_handle =
  pathfinder :: bool

text \<open>
  The whole mutable state of the process: \<^verbatim>\<open>botState\<close>, \<^verbatim>\<open>bot\<close>, \<^verbatim>\<open>config\<close>, and the
  content of the file \<^verbatim>\<open>config.json\<close>.
\<close>

record world =
  botState :: bot_state
  bot :: "bot_handle option"
  cfg :: config
  config_json :: config

text \<open>Exceptions that the modelled code can raise or receive.\<close>

datatype js_error =
  TypeError         \<comment> \<open>a property read on \<^verbatim>\<open>null\<close> or \<^verbatim>\<open>undefined\<close>\<close>
| WriteFailed       \<comment> \<open>\<^verbatim>\<open>fs.writeFileSync\<close> threw\<close>
| CreateBotFailed   \<comment> \<open>\<^verbatim>\<open>mineflayer.createBot\<close> threw\<close>

text \<open>The initial value of \<^verbatim>\<open>botState\<close> (lines 20 to 32).\<close>

definition initial_botState :: "config \<Rightarrow> bot_state" where
  "initial_botState c =
     \<lparr> connected = False,
       position = \<lparr> px = 0, py = 0, pz = 0 \<rparr>,
       center = Some \<lparr> px = patrol_centerX c, py = patrol_centerY c, pz = patrol_centerZ c \<rparr>,
       isPatrolling = False,
       currentTarget = None,
       health = 20,
       food = 20,
       lastChat = [],
       players = [],
       serverConfigured = False,
       switchingServers = False \<rparr>"

definition initial_world :: "config \<Rightarrow> world" where
  "initial_world c =
     \<lparr> botState = initial_botState c, bot = None, cfg = c, config_json = c \<rparr>"

section \<open>Double arithmetic\<close>

text \<open>
  The operators \<^verbatim>\<open>+\<close>, \<^verbatim>\<open>-\<close>, \<^verbatim>\<open>*\<close> and \<^verbatim>\<open>/\<close> of JavaScript return the double nearest to the
  exact result, a tie going to the double with the even significand. \<^verbatim>\<open>pow2 e\<close> is the power
  of two with exponent \<^verbatim>\<open>e\<close>; \<^verbatim>\<open>binade x\<close> is the exponent of the power of two at or below
  the magnitude of \<^verbatim>\<open>x\<close>, not less than the exponent - 1022 of the smallest normal double;
  the doubles of that binade are the multiples of the power of two 52 places below.
\<close>

definition pow2 :: "int \<Rightarrow> real" where
  "pow2 e = (if 0 \<le> e then 2 ^ nat e else 1 / 2 ^ nat (- e))"

definition round_even :: "real \<Rightarrow> int" where
  "round_even r =
     (let f = \<lfloor>r\<rfloor>
      in if r - of_int f < 1 / 2 then f
         else if 1 / 2 < r - of_int f then f + 1
         else if even f then f else f + 1)"

definition binade :: "real \<Rightarrow> int" where
  "binade x = max (- 1022) \<lfloor>log 2 \<bar>x\<bar>\<rfloor>"

definition rd64 :: "real \<Rightarrow> real" where
  "rd64 x =
     (if x = 0 then 0
      else let q = pow2 (binade x - 52)
           in q * of_int (round_even (x / q)))"

text \<open>
  Half the distance of two neighbouring doubles in the binade of \<^verbatim>\<open>x\<close>: the most by which
  rounding can change \<^verbatim>\<open>x\<close>.
\<close>

definition half_ulp :: "real \<Rightarrow> real" where
  "half_ulp x = (if x = 0 then 0 else pow2 (binade x - 53))"

text \<open>
  \<^verbatim>\<open>Math.round\<close> returns the integer nearest to its argument, a half going up; the result
  is exact. \<^verbatim>\<open>Math.PI\<close> is the double nearest to the number pi.
\<close>

definition Math_round :: "real \<Rightarrow> real" where
  "Math_round x = of_int \<lfloor>x + 1 / 2\<rfloor>"

definition Math_PI :: real where
  "Math_PI = 884279719003555 / 281474976710656"

text \<open>
  \<^verbatim>\<open>Math.cos\<close>, \<^verbatim>\<open>Math.sin\<close>, \<^verbatim>\<open>Math.pow\<close> and \<^verbatim>\<open>Math.sqrt\<close> are not in the source: the language
  leaves their results to the implementation, as approximations. They are parameters of
  the model. (The exponent of the one call of \<^verbatim>\<open>Math.pow\<close> is the literal 2.)
\<close>

record runtime =
  Math_cos :: "real \<Rightarrow> real"
  Math_sin :: "real \<Rightarrow> real"
  Math_pow :: "real \<Rightarrow> nat \<Rightarrow> real"
  Math_sqrt :: "real \<Rightarrow> real"

text \<open>The runtime whose functions return the double nearest to the exact result.\<close>

definition correctly_rounded :: runtime where
  "correctly_rounded =
     \<lparr> Math_cos = (\<lambda>a. rd64 (cos a)),
       Math_sin = (\<lambda>a. rd64 (sin a)),
       Math_pow = (\<lambda>x n. rd64 (x ^ n)),
       Math_sqrt = (\<lambda>x. rd64 (sqrt x)) \<rparr>"

section \<open>Random patrol points\<close>

text \<open>
  \<^verbatim>\<open>getRandomPoint\<close> (lines 209 to 219). The two results of \<^verbatim>\<open>Math.random()\<close> are
  parameters, in the order of the calls. Each product and each sum is rounded. The angle
  \<^verbatim>\<open>Math.random() * 2 * Math.PI\<close> and the distance \<^verbatim>\<open>Math.random() * radius\<close> are named as the
  source names them. Reading \<^verbatim>\<open>botState.center.x\<close> throws a TypeError when the center is
  not an object.
\<close>

definition random_angle :: "real \<Rightarrow> real" where
  "random_angle rnd1 = rd64 (rd64 (rnd1 * 2) * Math_PI)"

definition random_distance :: "real \<Rightarrow> world \<Rightarrow> real" where
  "random_distance rnd2 w = rd64 (rnd2 * patrol_radius (cfg w))"

definition getRandomPoint :: "runtime \<Rightarrow> real \<Rightarrow> real \<Rightarrow> world \<Rightarrow> js_error + point" where
  "getRandomPoint rt rnd1 rnd2 w =
     (let angle = random_angle rnd1;
          distance = random_distance rnd2 w
      in case center (botState w) of
           None \<Rightarrow> Inl TypeError
         | Some c \<Rightarrow>
             Inr \<lparr> px = rd64 (px c + rd64 (Math_cos rt angle * distance)),
                   py = py c,
                   pz = rd64 (pz c + rd64 (Math_sin rt angle * distance)) \<rparr>)"

text \<open>
  The distance of two points in the horizontal plane, as the claims word it: the
  Euclidean distance of their (x, z) coordinates, y ignored. This is the exact distance,
  not the one the move handler computes.
\<close>

definition xz_distance :: "point \<Rightarrow> point \<Rightarrow> real" where
  "xz_distance a b = sqrt ((px a - px b)\<^sup>2 + (pz a - pz b)\<^sup>2)"

section \<open>Observable effects\<close>

text \<open>
  A handler is a function from the state to the list of effects it causes, in the
  order of the source, and the new state. Timers are effects: the callback of a
  \<^verbatim>\<open>setTimeout\<close> is named, and what it does when it fires is a function of its own.
\<close>

datatype callback =
  AutoStartPatrol     \<comment> \<open>line 83: log, then \<^verbatim>\<open>startPatrolling()\<close>\<close>
| Reconnect           \<comment> \<open>line 120: \<^verbatim>\<open>createNewBot()\<close> in a try block\<close>
| RetryCreateBot      \<comment> \<open>line 127: \<^verbatim>\<open>createNewBot()\<close>\<close>
| ConnectNewServer    \<comment> \<open>line 375: set \<^verbatim>\<open>serverConfigured\<close>, then \<^verbatim>\<open>createNewBot()\<close>\<close>
| PatrolRetry         \<comment> \<open>line 277: \<^verbatim>\<open>patrol\<close>\<close>

datatype log_msg =
  BotSpawned
| CenterSetToSpawn point
| BotErrorLogged
| BotDisconnected
| AttemptingReconnect
| ReconnectionFailed js_error
| NotAutoReconnecting
| TeleportDetected real
| OldCenter point
| NewCenterUpdated point
| PathfinderNotAvailable
| ReachedPosition point
| MovementError string
| MovingToCenter point
| PatrolStopped bool bool
| PatrollingTo point
| ReachedPatrolPoint
| ReturningToCenter
| ReturnedToCenter
| ContinuingPatrol
| PatrolLoopEnded bool bool
| PatrolError js_error
| RetryingPatrol
| NotRetryingPatrol bool bool
| StartingPatrol
| PatrolStoppedByCall
| AutoStartingPatrol
| SwitchingToServer js_string real
| UpdateServerFailed js_error
| UserRequestedDisconnect

datatype reply =
  SuccessCenter "point option"   \<comment> \<open>\<^verbatim>\<open>{ success: true, center: botState.center }\<close>\<close>
| SuccessPatrol bool             \<comment> \<open>\<^verbatim>\<open>{ success: true, isPatrolling: ... }\<close>\<close>
| SuccessMessage string          \<comment> \<open>\<^verbatim>\<open>{ success: true, message: ... }\<close>\<close>
| ErrorReply string              \<comment> \<open>\<^verbatim>\<open>{ error: ... }\<close>\<close>

datatype effect =
  Log log_msg
| Goto point                     \<comment> \<open>\<^verbatim>\<open>bot.pathfinder.goto(new GoalNear(x, y, z, 1))\<close> is started\<close>
| Sleep nat                      \<comment> \<open>\<^verbatim>\<open>await new Promise(resolve => setTimeout(resolve, ms))\<close>\<close>
| SetTimeout nat callback        \<comment> \<open>\<^verbatim>\<open>setTimeout(callback, ms)\<close>, delay first\<close>
| Quit string                    \<comment> \<open>\<^verbatim>\<open>bot.quit(reason)\<close>\<close>
| WriteConfig config             \<comment> \<open>\<^verbatim>\<open>fs.writeFileSync('config.json', ...)\<close> returned\<close>
| CreateBot js_string real       \<comment> \<open>\<^verbatim>\<open>mineflayer.createBot\<close> with this host and port\<close>
| UnhandledRejection js_error    \<comment> \<open>a promise nobody awaits was rejected\<close>
| Uncaught js_error              \<comment> \<open>an exception left an event handler or a timer callback\<close>
| Respond nat reply              \<comment> \<open>the HTTP status and the JSON body sent\<close>

section \<open>Movement\<close>

text \<open>How the promise of \<^verbatim>\<open>bot.pathfinder.goto\<close> settles.\<close>

datatype goto_result =
  Reached                 \<comment> \<open>resolved\<close>
| Rejected string         \<comment> \<open>rejected with an Error that has this message\<close>
| RejectedNullish         \<comment> \<open>rejected with \<^verbatim>\<open>null\<close> or \<^verbatim>\<open>undefined\<close>\<close>

text \<open>
  \<^verbatim>\<open>moveToPosition\<close> (lines 221 to 234) is an async function with one await. Its first part
  runs up to that await: \<^verbatim>\<open>bot.pathfinder\<close> throws a TypeError when \<^verbatim>\<open>bot\<close> is undefined;
  without the plugin the function returns at once (the flag of the result is False);
  otherwise the target is recorded and the goto is started (the flag is True).
\<close>

definition moveToPosition_begin :: "point \<Rightarrow> world \<Rightarrow> js_error + (effect list \<times> world \<times> bool)" where
  "moveToPosition_begin target w =
     (case bot w of
        None \<Rightarrow> Inl TypeError
      | Some b \<Rightarrow>
          if \<not> pathfinder b then Inr ([Log PathfinderNotAvailable], w, False)
          else Inr ([Goto target],
                    w\<lparr>botState := (botState w)\<lparr>currentTarget := Some target\<rparr>\<rparr>,
                    True))"

text \<open>
  Its second part runs when the goto has settled: a log line for success, the catch
  block for a rejection. The catch block reads \<^verbatim>\<open>error.message\<close>, which throws a TypeError
  when the rejection value is \<^verbatim>\<open>null\<close> or \<^verbatim>\<open>undefined\<close>.
\<close>

definition moveToPosition_end :: "point \<Rightarrow> goto_result \<Rightarrow> js_error + effect list" where
  "moveToPosition_end target g =
     (case g of
        Reached \<Rightarrow> Inr [Log (ReachedPosition target)]
      | Rejected m \<Rightarrow> Inr [Log (MovementError m)]
      | RejectedNullish \<Rightarrow> Inl TypeError)"

text \<open>
  \<^verbatim>\<open>moveToCenter\<close> (lines 236 to 239), up to the await inside \<^verbatim>\<open>moveToPosition\<close>. The log
  line reads \<^verbatim>\<open>botState.center.x\<close>. An exception comes with the effects that preceded it.
  The result names the target of the pending goto, if one was started.
\<close>

definition moveToCenter_begin ::
  "world \<Rightarrow> (js_error \<times> effect list) + (effect list \<times> world \<times> point option)" where
  "moveToCenter_begin w =
     (case center (botState w) of
        None \<Rightarrow> Inl (TypeError, [])
      | Some c \<Rightarrow>
          (case moveToPosition_begin c w of
             Inl e \<Rightarrow> Inl (e, [Log (MovingToCenter c)])
           | Inr (fx, w', pending) \<Rightarrow>
               Inr (Log (MovingToCenter c) # fx, w', if pending then Some c else None)))"

section \<open>The patrol loop\<close>

text \<open>
  \<^verbatim>\<open>patrol\<close> (lines 241 to 282) is an async function: it runs until an await, and is resumed
  when the awaited promise settles. Between the two, any other handler may have run. The
  points where an invocation can be suspended:
\<close>

datatype pc =
  AwaitGotoPoint point      \<comment> \<open>line 251, in the goto towards the random point\<close>
| AwaitSleep2000            \<comment> \<open>line 255\<close>
| AwaitGotoCenter point     \<comment> \<open>line 259, in the goto towards the center\<close>
| AwaitSleep3000            \<comment> \<open>line 263\<close>
| Done                      \<comment> \<open>the invocation has returned\<close>

text \<open>The catch block (lines 272 to 281), entered with the effects that preceded the throw.\<close>

definition patrol_catch :: "js_error \<Rightarrow> effect list \<Rightarrow> world \<Rightarrow> effect list \<times> world \<times> pc" where
  "patrol_catch e pre w =
     (if connected (botState w) \<and> isPatrolling (botState w)
      then (pre @ [Log (PatrolError e), Log RetryingPatrol, SetTimeout 3000 PatrolRetry], w, Done)
      else (pre @ [Log (PatrolError e),
                   Log (NotRetryingPatrol (connected (botState w)) (isPatrolling (botState w)))],
            w, Done))"

text \<open>
  The try block from its start (line 248) to the first await that suspends. When
  \<^verbatim>\<open>moveToPosition\<close> returns without a goto, the await of its result lets no handler run,
  and the block goes on to the two-second sleep.
\<close>

definition patrol_try_begin ::
  "runtime \<Rightarrow> real \<Rightarrow> real \<Rightarrow> world \<Rightarrow> (js_error \<times> effect list) + (effect list \<times> world \<times> pc)" where
  "patrol_try_begin rt rnd1 rnd2 w =
     (case getRandomPoint rt rnd1 rnd2 w of
        Inl e \<Rightarrow> Inl (e, [])
      | Inr randomPoint \<Rightarrow>
          (case moveToPosition_begin randomPoint w of
             Inl e \<Rightarrow> Inl (e, [Log (PatrollingTo randomPoint)])
           | Inr (fx, w', pending) \<Rightarrow>
               if pending
               then Inr (Log (PatrollingTo randomPoint) # fx, w', AwaitGotoPoint randomPoint)
               else Inr (Log (PatrollingTo randomPoint) # fx @ [Log ReachedPatrolPoint, Sleep 2000],
                         w', AwaitSleep2000)))"

text \<open>A call of \<^verbatim>\<open>patrol()\<close>: the guard of lines 242 to 245, then the try block.\<close>

definition patrol :: "runtime \<Rightarrow> real \<Rightarrow> real \<Rightarrow> world \<Rightarrow> effect list \<times> world \<times> pc" where
  "patrol rt rnd1 rnd2 w =
     (if \<not> connected (botState w) \<or> \<not> isPatrolling (botState w)
      then ([Log (PatrolStopped (connected (botState w)) (isPatrolling (botState w)))], w, Done)
      else case patrol_try_begin rt rnd1 rnd2 w of
             Inl (e, pre) \<Rightarrow> patrol_catch e pre w
           | Inr r \<Rightarrow> r)"

text \<open>
  The try block from a resumption point to the next await. The goto result is read when
  the invocation was suspended in a goto; the two random numbers are read when the block
  reaches the recursive call of line 268, which runs the next invocation up to its first
  await.
\<close>

fun patrol_try_resume ::
  "runtime \<Rightarrow> pc \<Rightarrow> goto_result \<Rightarrow> real \<Rightarrow> real \<Rightarrow> world
     \<Rightarrow> (js_error \<times> effect list) + (effect list \<times> world \<times> pc)" where
  "patrol_try_resume rt (AwaitGotoPoint p) g rnd1 rnd2 w =
     (case moveToPosition_end p g of
        Inl e \<Rightarrow> Inl (e, [])
      | Inr fx \<Rightarrow> Inr (fx @ [Log ReachedPatrolPoint, Sleep 2000], w, AwaitSleep2000))"
| "patrol_try_resume rt AwaitSleep2000 g rnd1 rnd2 w =
     (case moveToCenter_begin w of
        Inl (e, pre) \<Rightarrow> Inl (e, Log ReturningToCenter # pre)
      | Inr (fx, w', Some c) \<Rightarrow> Inr (Log ReturningToCenter # fx, w', AwaitGotoCenter c)
      | Inr (fx, w', None) \<Rightarrow>
          Inr (Log ReturningToCenter # fx @ [Log ReturnedToCenter, Sleep 3000], w', AwaitSleep3000))"
| "patrol_try_resume rt (AwaitGotoCenter c) g rnd1 rnd2 w =
     (case moveToPosition_end c g of
        Inl e \<Rightarrow> Inl (e, [])
      | Inr fx \<Rightarrow> Inr (fx @ [Log ReturnedToCenter, Sleep 3000], w, AwaitSleep3000))"
| "patrol_try_resume rt AwaitSleep3000 g rnd1 rnd2 w =
     (if connected (botState w) \<and> isPatrolling (botState w)
      then (case patrol rt rnd1 rnd2 w of (fx, w', k) \<Rightarrow> Inr (Log ContinuingPatrol # fx, w', k))
      else Inr ([Log (PatrolLoopEnded (connected (botState w)) (isPatrolling (botState w)))],
                w, Done))"
| "patrol_try_resume rt Done g rnd1 rnd2 w = Inr ([], w, Done)"

definition patrol_resume ::
  "runtime \<Rightarrow> pc \<Rightarrow> goto_result \<Rightarrow> real \<Rightarrow> real \<Rightarrow> world \<Rightarrow> effect list \<times> world \<times> pc" where
  "patrol_resume rt k g rnd1 rnd2 w =
     (case patrol_try_resume rt k g rnd1 rnd2 w of
        Inl (e, pre) \<Rightarrow> patrol_catch e pre w
      | Inr r \<Rightarrow> r)"

text \<open>
  An invocation followed through its resumptions. Each resumption comes with what the
  other handlers did to the state while the invocation was suspended, how the pending
  goto settled, and the random numbers a recursive call would draw.
\<close>

fun patrol_run ::
  "runtime \<Rightarrow> ((world \<Rightarrow> world) \<times> goto_result \<times> real \<times> real) list
     \<Rightarrow> effect list \<times> world \<times> pc \<Rightarrow> effect list \<times> world \<times> pc" where
  "patrol_run rt [] r = r"
| "patrol_run rt ((meanwhile, g, rnd1, rnd2) # xs) (fx, w, k) =
     (case patrol_resume rt k g rnd1 rnd2 (meanwhile w) of
        (fx', w', k') \<Rightarrow> patrol_run rt xs (fx @ fx', w', k'))"

text \<open>\<^verbatim>\<open>startPatrolling\<close> (lines 284 to 290) and \<^verbatim>\<open>stopPatrolling\<close> (lines 292 to 295).\<close>

definition startPatrolling :: "runtime \<Rightarrow> real \<Rightarrow> real \<Rightarrow> world \<Rightarrow> effect list \<times> world \<times> pc" where
  "startPatrolling rt rnd1 rnd2 w =
     (if connected (botState w) \<and> \<not> isPatrolling (botState w)
      then (case patrol rt rnd1 rnd2 (w\<lparr>botState := (botState w)\<lparr>isPatrolling := True\<rparr>\<rparr>) of
              (fx, w', k) \<Rightarrow> (Log StartingPatrol # fx, w', k))
      else ([], w, Done))"

definition stopPatrolling :: "world \<Rightarrow> effect list \<times> world" where
  "stopPatrolling w =
     ([Log PatrolStoppedByCall], w\<lparr>botState := (botState w)\<lparr>isPatrolling := False\<rparr>\<rparr>)"

section \<open>Bot events\<close>

text \<open>
  \<^verbatim>\<open>createNewBot\<close> (lines 38 to 64). What \<^verbatim>\<open>mineflayer.createBot\<close> does is a parameter: it
  throws (None) or returns a bot object. The host and port are read from the configuration
  at the time of the call.
\<close>

definition createNewBot :: "bot_handle option \<Rightarrow> world \<Rightarrow> js_error + (effect list \<times> world)" where
  "createNewBot created w =
     (case created of
        None \<Rightarrow> Inl CreateBotFailed
      | Some b \<Rightarrow> Inr ([CreateBot (server_host (cfg w)) (server_port (cfg w))], w\<lparr>bot := Some b\<rparr>))"

text \<open>
  The spawn handler (lines 71 to 87); the argument is \<^verbatim>\<open>bot.entity.position\<close>, cloned by
  the handler. After the center is set, \<^verbatim>\<open>bot.pathfinder.setMovements\<close> is called: this
  throws a TypeError, which leaves the handler before the timer is set, when there is no
  bot or the bot has no pathfinder. (The library calls themselves are taken to return.)
\<close>

definition on_spawn :: "point \<Rightarrow> world \<Rightarrow> effect list \<times> world" where
  "on_spawn spawnPos w =
     (let w1 = w\<lparr>botState := (botState w)\<lparr>connected := True, center := Some spawnPos\<rparr>\<rparr>;
          ready = (case bot w1 of None \<Rightarrow> False | Some bh \<Rightarrow> pathfinder bh)
      in if ready
         then ([Log BotSpawned, Log (CenterSetToSpawn spawnPos), SetTimeout 2000 AutoStartPatrol],
               w1)
         else ([Log BotSpawned, Log (CenterSetToSpawn spawnPos), Uncaught TypeError], w1))"

text \<open>The error handler (lines 89 to 94).\<close>

definition on_error :: "world \<Rightarrow> effect list \<times> world" where
  "on_error w =
     ([Log BotErrorLogged],
      w\<lparr>botState := (botState w)\<lparr>connected := False, isPatrolling := False\<rparr>\<rparr>)"

text \<open>The end handler (lines 112 to 134).\<close>

definition on_end :: "world \<Rightarrow> effect list \<times> world" where
  "on_end w =
     (let w1 = w\<lparr>botState := (botState w)\<lparr>connected := False, isPatrolling := False\<rparr>\<rparr>
      in if \<not> switchingServers (botState w1)
         then ([Log BotDisconnected, SetTimeout 5000 Reconnect], w1)
         else ([Log BotDisconnected, Log NotAutoReconnecting],
               w1\<lparr>botState := (botState w1)\<lparr>switchingServers := False\<rparr>\<rparr>))"

text \<open>\<^verbatim>\<open>Math.round(v * 10) / 10\<close>: the product and the quotient are rounded to a double.\<close>

definition round10 :: "real \<Rightarrow> real" where
  "round10 v = rd64 (Math_round (rd64 (v * 10)) / 10)"

text \<open>
  The move handler (lines 137 to 169); the argument is the position of \<^verbatim>\<open>bot.entity\<close>, or
  None when the bot has no entity. The distance is computed in doubles: the differences,
  the sum of the squares and \<^verbatim>\<open>radius + 2\<close> are rounded, the squares and the square root
  are what the runtime returns.
\<close>

definition on_move :: "runtime \<Rightarrow> point option \<Rightarrow> world \<Rightarrow> effect list \<times> world" where
  "on_move rt entity w =
     (case entity of
        None \<Rightarrow> ([], w)
      | Some e \<Rightarrow>
          let newPosition = \<lparr> px = round10 (px e), py = round10 (py e), pz = round10 (pz e) \<rparr>;
              (fx, w1) =
                (case center (botState w) of
                   None \<Rightarrow> ([], w)
                 | Some c \<Rightarrow>
                     if connected (botState w) then
                       let distance =
                             Math_sqrt rt
                               (rd64 (Math_pow rt (rd64 (px newPosition - px c)) 2
                                      + Math_pow rt (rd64 (pz newPosition - pz c)) 2))
                       in if distance > rd64 (patrol_radius (cfg w) + 2)
                          then ([Log (TeleportDetected distance), Log (OldCenter c),
                                 Log (NewCenterUpdated newPosition)],
                                w\<lparr>botState := (botState w)\<lparr>center := Some newPosition\<rparr>\<rparr>)
                          else ([], w)
                     else ([], w))
          in (fx, w1\<lparr>botState := (botState w1)\<lparr>position := newPosition\<rparr>\<rparr>))"

text \<open>The health handler (lines 172 to 175).\<close>

definition on_health :: "real \<Rightarrow> real \<Rightarrow> world \<Rightarrow> effect list \<times> world" where
  "on_health h f w = ([], w\<lparr>botState := (botState w)\<lparr>health := h, food := f\<rparr>\<rparr>)"

text \<open>
  \<^verbatim>\<open>updatePlayerList\<close> (lines 189 to 191), called when a player joins or leaves; the
  arguments are the keys of \<^verbatim>\<open>bot.players\<close> and \<^verbatim>\<open>bot.username\<close>.
\<close>

definition updatePlayerList :: "string list \<Rightarrow> string \<Rightarrow> world \<Rightarrow> effect list \<times> world" where
  "updatePlayerList names username w =
     ([], w\<lparr>botState := (botState w)\<lparr>players := filter (\<lambda>name. name \<noteq> username) names\<rparr>\<rparr>)"

text \<open>
  What a timer callback does when it fires. The random numbers are read by a patrol that
  starts; \<^verbatim>\<open>created\<close> is what \<^verbatim>\<open>mineflayer.createBot\<close> does if it is called.
\<close>

fun timer_fires ::
  "runtime \<Rightarrow> callback \<Rightarrow> real \<Rightarrow> real \<Rightarrow> bot_handle option \<Rightarrow> world \<Rightarrow> effect list \<times> world \<times> pc" where
  "timer_fires rt AutoStartPatrol rnd1 rnd2 created w =
     (case startPatrolling rt rnd1 rnd2 w of (fx, w', k) \<Rightarrow> (Log AutoStartingPatrol # fx, w', k))"
| "timer_fires rt Reconnect rnd1 rnd2 created w =
     (case createNewBot created w of
        Inl e \<Rightarrow>
          ([Log AttemptingReconnect, Log (ReconnectionFailed e), SetTimeout 10000 RetryCreateBot],
           w, Done)
      | Inr (fx, w') \<Rightarrow> (Log AttemptingReconnect # fx, w', Done))"
| "timer_fires rt RetryCreateBot rnd1 rnd2 created w =
     (case createNewBot created w of
        Inl e \<Rightarrow> ([Uncaught e], w, Done)
      | Inr (fx, w') \<Rightarrow> (fx, w', Done))"
| "timer_fires rt ConnectNewServer rnd1 rnd2 created w =
     (let w1 = w\<lparr>botState := (botState w)\<lparr>serverConfigured := True\<rparr>\<rparr>
      in case createNewBot created w1 of
           Inl e \<Rightarrow> ([Uncaught e], w1, Done)
         | Inr (fx, w') \<Rightarrow> (fx, w', Done))"
| "timer_fires rt PatrolRetry rnd1 rnd2 created w = patrol rt rnd1 rnd2 w"

section \<open>HTTP endpoints\<close>

text \<open>
  A parsed JSON value, and the request body as \<^verbatim>\<open>express.json()\<close> leaves it: the
  properties of an object, absent ones being \<^verbatim>\<open>undefined\<close> (None).
\<close>

datatype json =
  JNull
| JBool bool
| JNum real
| JStr js_string
| JArr "json list"
| JObj "(js_string \<times> json) list"

type_synonym body = "string \<Rightarrow> json option"

text \<open>
  POST \<^verbatim>\<open>/api/set-center\<close> (lines 323 to 332). The three \<^verbatim>\<open>typeof ... === 'number'\<close> tests are
  the pattern of the first case. \<^verbatim>\<open>moveToCenter()\<close> is called and not awaited: its first
  part runs before the response is sent; an exception in it rejects a promise that nobody
  handles, which surfaces after the handler has returned, so after the response.
\<close>

definition api_set_center :: "body \<Rightarrow> world \<Rightarrow> effect list \<times> world" where
  "api_set_center b w =
     (case (b ''x'', b ''y'', b ''z'') of
        (Some (JNum x), Some (JNum y), Some (JNum z)) \<Rightarrow>
          (let w1 = w\<lparr>botState := (botState w)\<lparr>center := Some \<lparr> px = x, py = y, pz = z \<rparr>\<rparr>\<rparr>;
               (fx, later, w2) =
                 (case moveToCenter_begin w1 of
                    Inl (e, pre) \<Rightarrow> (pre, [UnhandledRejection e], w1)
                  | Inr (fx', w', pending) \<Rightarrow> (fx', [], w'))
           in (fx @ Respond 200 (SuccessCenter (center (botState w2))) # later, w2))
      | _ \<Rightarrow> ([Respond 400 (ErrorReply ''Invalid coordinates'')], w))"

text \<open>POST \<^verbatim>\<open>/api/toggle-patrol\<close> (lines 334 to 341).\<close>

definition api_toggle_patrol :: "runtime \<Rightarrow> real \<Rightarrow> real \<Rightarrow> world \<Rightarrow> effect list \<times> world" where
  "api_toggle_patrol rt rnd1 rnd2 w =
     (let (fx, w1) = (if isPatrolling (botState w) then stopPatrolling w
                      else case startPatrolling rt rnd1 rnd2 w of (fx', w', k) \<Rightarrow> (fx', w'))
      in (fx @ [Respond 200 (SuccessPatrol (isPatrolling (botState w1)))], w1))"

text \<open>
  \<^verbatim>\<open>String.prototype.trim\<close>: the white space and line terminator code units of ECMAScript
  are removed at both ends.
\<close>

definition js_whitespace :: "16 word \<Rightarrow> bool" where
  "js_whitespace u =
     (u \<in> set [0x9, 0xA, 0xB, 0xC, 0xD, 0x20, 0xA0, 0x1680, 0x2028, 0x2029, 0x202F, 0x205F,
               0x3000, 0xFEFF]
      \<or> (0x2000 \<le> u \<and> u \<le> 0x200A))"

definition trim :: "js_string \<Rightarrow> js_string" where
  "trim s = rev (dropWhile js_whitespace (rev (dropWhile js_whitespace s)))"

text \<open>
  POST \<^verbatim>\<open>/api/update-server\<close> (lines 343 to 385). A host that is not a string fails
  \<^verbatim>\<open>typeof host !== 'string'\<close> (or \<^verbatim>\<open>!host\<close> before it); for a string, \<^verbatim>\<open>!host\<close> holds when it
  is empty. A port that is not a number fails \<^verbatim>\<open>typeof port !== 'number'\<close> (or \<^verbatim>\<open>!port\<close>);
  for a number, \<^verbatim>\<open>!port\<close> holds when it is 0. The parameter \<^verbatim>\<open>write_ok\<close> says whether
  \<^verbatim>\<open>fs.writeFileSync\<close> returns; when it throws, the catch block answers 500.
\<close>

definition api_update_server :: "body \<Rightarrow> bool \<Rightarrow> world \<Rightarrow> effect list \<times> world" where
  "api_update_server b write_ok w =
     (case b ''host'' of
        Some (JStr h) \<Rightarrow>
          if h = [] \<or> trim h = [] then ([Respond 400 (ErrorReply ''Invalid host'')], w)
          else
            (case b ''port'' of
               Some (JNum p) \<Rightarrow>
                 if p = 0 \<or> p < 1 \<or> p > 65535
                 then ([Respond 400 (ErrorReply ''Invalid port number'')], w)
                 else
                   (let c1 = (cfg w)\<lparr>server_host := trim h, server_port := p\<rparr>;
                        w1 = w\<lparr>cfg := c1\<rparr>
                    in if \<not> write_ok
                       then ([Log (UpdateServerFailed WriteFailed),
                              Respond 500 (ErrorReply ''Failed to update server configuration'')],
                             w1)
                       else
                         (let w2 = w1\<lparr>config_json := c1\<rparr>;
                              w3 = w2\<lparr>botState := (botState w2)\<lparr>switchingServers := True\<rparr>\<rparr>;
                              (fx, w4) =
                                (case bot w3 of
                                   None \<Rightarrow> ([], w3)
                                 | Some bh \<Rightarrow>
                                     ([Log (SwitchingToServer h p), Quit ''Switching servers''],
                                      w3\<lparr>botState := (botState w3)
                                            \<lparr>connected := False, isPatrolling := False\<rparr>\<rparr>))
                          in (WriteConfig c1 # fx
                                @ [SetTimeout 2000 ConnectNewServer,
                                   Respond 200 (SuccessMessage ''Server updated successfully'')],
                              w4)))
             | _ \<Rightarrow> ([Respond 400 (ErrorReply ''Invalid port number'')], w))
      | _ \<Rightarrow> ([Respond 400 (ErrorReply ''Invalid host'')], w))"

text \<open>POST \<^verbatim>\<open>/api/disconnect\<close> (lines 387 to 404).\<close>

definition api_disconnect :: "world \<Rightarrow> effect list \<times> world" where
  "api_disconnect w =
     (let w1 = w\<lparr>botState := (botState w)
                  \<lparr>serverConfigured := False, connected := False, isPatrolling := False,
                   switchingServers := True\<rparr>\<rparr>
      in (Log UserRequestedDisconnect
            # (case bot w1 of None \<Rightarrow> [] | Some bh \<Rightarrow> [Quit ''User requested disconnect''])
            @ [Respond 200 (SuccessMessage ''Disconnected from server'')],
          w1))"

section \<open>The process as a transition system\<close>

text \<open>
  Everything that can run between two awaits: a bot event, a timer that fires, a
  suspended patrol that is resumed, an HTTP request. Each event carries what its handler
  reads from outside.
\<close>

datatype event =
  Spawn point
| BotError
| End
| Move "point option"
| Health real real
| PlayersChanged "string list" string
| TimerFires callback real real "bot_handle option"
| PatrolResumes pc goto_result real real
| SetCenterRequest body
| TogglePatrolRequest real real
| UpdateServerRequest body bool
| DisconnectRequest

fun step :: "runtime \<Rightarrow> event \<Rightarrow> world \<Rightarrow> effect list \<times> world" where
  "step rt (Spawn p) w = on_spawn p w"
| "step rt BotError w = on_error w"
| "step rt End w = on_end w"
| "step rt (Move entity) w = on_move rt entity w"
| "step rt (Health h f) w = on_health h f w"
| "step rt (PlayersChanged names username) w = updatePlayerList names username w"
| "step rt (TimerFires cb rnd1 rnd2 created) w =
     (case timer_fires rt cb rnd1 rnd2 created w of (fx, w', k) \<Rightarrow> (fx, w'))"
| "step rt (PatrolResumes k g rnd1 rnd2) w =
     (case patrol_resume rt k g rnd1 rnd2 w of (fx, w', k') \<Rightarrow> (fx, w'))"
| "step rt (SetCenterRequest b) w = api_set_center b w"
| "step rt (TogglePatrolRequest rnd1 rnd2) w = api_toggle_patrol rt rnd1 rnd2 w"
| "step rt (UpdateServerRequest b write_ok) w = api_update_server b write_ok w"
| "step rt DisconnectRequest w = api_disconnect w"

text \<open>The state after a sequence of events.\<close>

fun run :: "runtime \<Rightarrow> event list \<Rightarrow> world \<Rightarrow> world" where
  "run rt [] w = w"
| "run rt (e # es) w = run rt es (snd (step rt e w))"

text \<open>The HTTP responses and the callback timers among a list of effects, in order.\<close>

fun responses :: "effect list \<Rightarrow> (nat \<times> reply) list" where
  "responses [] = []"
| "responses (Respond status r # fx) = (status, r) # responses fx"
| "responses (_ # fx) = responses fx"

fun scheduled :: "effect list \<Rightarrow> (nat \<times> callback) list" where
  "scheduled [] = []"
| "scheduled (SetTimeout ms cb # fx) = (ms, cb) # scheduled fx"
| "scheduled (_ # fx) = scheduled fx"

text \<open>A sample configuration and a sample state of a connected bot, for concrete runs.\<close>

definition sample_config :: config where
  "sample_config =
     \<lparr> server_host = [0x6D, 0x63], server_port = 25565, patrol_radius = 4,
       patrol_centerX = 1, patrol_centerY = 2, patrol_centerZ = 3 \<rparr>"

definition sample_world :: world where
  "sample_world =
     \<lparr> botState = (initial_botState sample_config)\<lparr>connected := True\<rparr>,
       bot = Some \<lparr> pathfinder = True \<rparr>,
       cfg = sample_config,
       config_json = sample_config \<rparr>"

text \<open>
  A valid host and a valid port as the claims word them: a string that is not empty after
  trimming, and a number from 1 to 65535.
\<close>

fun valid_host :: "json option \<Rightarrow> bool" where
  "valid_host (Some (JStr h)) = (trim h \<noteq> [])"
| "valid_host _ = False"

fun valid_port :: "json option \<Rightarrow> bool" where
  "valid_port (Some (JNum p)) = (1 \<le> p \<and> p \<le> 65535)"
| "valid_port _ = False"

definition sample_patrolling_world :: world where
  "sample_patrolling_world =
     sample_world\<lparr>botState := (botState sample_world)\<lparr>isPatrolling := True\<rparr>\<rparr>"

text \<open>
  A sample run from the start of the process: the server is configured, the bot is created
  and spawns, and the auto-start timer fires.
\<close>

definition sample_events :: "event list" where
  "sample_events =
     [UpdateServerRequest
        (\<lambda>k. if k = ''host'' then Some (JStr [0x6D, 0x63]) else
              if k = ''port'' then Some (JNum 25565) else None)
        True,
      TimerFires ConnectNewServer 0 0 (Some \<lparr> pathfinder = True \<rparr>),
      Spawn \<lparr> px = 0, py = 64, pz = 0 \<rparr>,
      TimerFires AutoStartPatrol 0 (1 / 2) None]"

text \<open>
  The sample state with a negative radius in the configuration, and with a center whose x
  is the double nearest to - 5.9 (as a set-center request with x = - 5.9 leaves it).
\<close>

definition negative_radius_world :: world where
  "negative_radius_world = sample_world\<lparr>cfg := sample_config\<lparr>patrol_radius := - 4\<rparr>\<rparr>"

definition boundary_world :: world where
  "boundary_world =
     sample_world\<lparr>botState := (botState sample_world)
       \<lparr>center := Some \<lparr> px = - 3321404725185741 / 562949953421312, py = 64, pz = 0 \<rparr>\<rparr>\<rparr>"

text \<open>Sample request bodies.\<close>

definition sample_center_request :: body where
  "sample_center_request =
     (\<lambda>k. if k = ''x'' then Some (JNum 10)
          else if k = ''y'' then Some (JNum 64)
          else if k = ''z'' then Some (JNum (- 5))
          else None)"

definition sample_bad_center_request :: body where
  "sample_bad_center_request =
     (\<lambda>k. if k = ''x'' then Some (JNum 10)
          else if k = ''y'' then Some (JStr [0x36, 0x34])
          else None)"

definition sample_server_request :: body where
  "sample_server_request =
     (\<lambda>k. if k = ''host'' then Some (JStr [0x20, 0x6D, 0x63, 0x32, 0x20])
          else if k = ''port'' then Some (JNum 25566)
          else None)"

section \<open>Properties\<close>

subsection \<open>Rounding to a double\<close>

lemma pow2_powr: "pow2 e = 2 powr of_int e"
proof (cases "0 \<le> e")
  case True
  then show ?thesis
    by (simp add: pow2_def powr_realpow [symmetric])
next
  case False
  then have "(2::real) powr of_int e = 1 / 2 powr of_int (- e)"
    by (simp add: powr_minus divide_inverse)
  also have "\<dots> = 1 / 2 ^ nat (- e)"
    using False by (simp add: powr_realpow [symmetric])
  finally show ?thesis
    using False by (simp add: pow2_def)
qed

lemma pow2_pos: "0 < pow2 e"
  by (simp add: pow2_powr)

lemma binade_eq:
  assumes "pow2 e \<le> \<bar>x\<bar>" and "\<bar>x\<bar> < pow2 (e + 1)" and "- 1022 \<le> e"
  shows "binade x = e"
proof -
  have pos: "0 < \<bar>x\<bar>"
    using pow2_pos assms(1) by (rule less_le_trans)
  have "of_int e \<le> log 2 \<bar>x\<bar>"
    using assms(1) pos by (simp add: le_log_iff pow2_powr)
  moreover have "log 2 \<bar>x\<bar> < of_int e + 1"
    using assms(2) pos by (simp add: log_less_iff pow2_powr)
  ultimately have "\<lfloor>log 2 \<bar>x\<bar>\<rfloor> = e"
    by (simp add: floor_unique)
  with assms(3) show ?thesis
    by (simp add: binade_def)
qed

lemma rd64_eval:
  assumes "pow2 e \<le> \<bar>x\<bar>" and "\<bar>x\<bar> < pow2 (e + 1)" and "- 1022 \<le> e"
  shows "rd64 x = pow2 (e - 52) * of_int (round_even (x / pow2 (e - 52)))"
proof -
  have "0 < \<bar>x\<bar>"
    using pow2_pos assms(1) by (rule less_le_trans)
  then have "x \<noteq> 0"
    by simp
  with binade_eq [OF assms] show ?thesis
    by (simp add: rd64_def Let_def)
qed

text \<open>Small integers are doubles.\<close>

lemma rd64_0 [simp]: "rd64 0 = 0"
  by (simp add: rd64_def)

lemma rd64_1 [simp]: "rd64 1 = 1"
  using rd64_eval [of 0 1] by (simp add: round_even_def pow2_def)

lemma rd64_2 [simp]: "rd64 2 = 2"
  using rd64_eval [of 1 2] by (simp add: round_even_def pow2_def)

lemma rd64_3 [simp]: "rd64 3 = 3"
  using rd64_eval [of 1 3] by (simp add: round_even_def pow2_def)

lemma rd64_4 [simp]: "rd64 4 = 4"
  using rd64_eval [of 2 4] by (simp add: round_even_def pow2_def)

lemma rd64_6 [simp]: "rd64 6 = 6"
  using rd64_eval [of 2 6] by (simp add: round_even_def pow2_def)

lemma rd64_minus_1 [simp]: "rd64 (- 1) = - 1"
  using rd64_eval [of 0 "- 1"] by (simp add: round_even_def pow2_def)

lemma rd64_minus_2 [simp]: "rd64 (- 2) = - 2"
  using rd64_eval [of 1 "- 2"] by (simp add: round_even_def pow2_def)

lemma pow2_add: "pow2 (a + b) = pow2 a * pow2 b"
  by (simp add: pow2_powr powr_add)

lemma pow2_mono: "a \<le> b \<Longrightarrow> pow2 a \<le> pow2 b"
  by (simp add: pow2_powr)

lemma round_even_le: "r \<le> of_int n \<Longrightarrow> round_even r \<le> n"
  unfolding round_even_def Let_def
  by (auto simp: floor_le_iff)

lemma round_even_nonneg: "0 \<le> r \<Longrightarrow> 0 \<le> round_even r"
  unfolding round_even_def Let_def
  by auto

lemma rd64_nonneg: "0 \<le> x \<Longrightarrow> 0 \<le> rd64 x"
  by (simp add: rd64_def Let_def pow2_pos round_even_nonneg less_imp_le)

lemma binade_bounds:
  assumes "x \<noteq> 0"
  shows "\<bar>x\<bar> < pow2 (binade x + 1)"
    and "- 1022 < binade x \<Longrightarrow> pow2 (binade x) \<le> \<bar>x\<bar>"
proof -
  have pos: "0 < \<bar>x\<bar>"
    using assms by simp
  have "log 2 \<bar>x\<bar> < of_int \<lfloor>log 2 \<bar>x\<bar>\<rfloor> + 1"
    by linarith
  also have "\<dots> \<le> of_int (binade x) + 1"
    by (simp add: binade_def)
  finally have "log 2 \<bar>x\<bar> < of_int (binade x + 1)"
    by simp
  then show "\<bar>x\<bar> < pow2 (binade x + 1)"
    using pos by (simp add: log_less_iff pow2_powr)
  assume "- 1022 < binade x"
  then have "binade x = \<lfloor>log 2 \<bar>x\<bar>\<rfloor>"
    by (simp add: binade_def max_def split: if_splits)
  then have "of_int (binade x) \<le> log 2 \<bar>x\<bar>"
    by simp
  then show "pow2 (binade x) \<le> \<bar>x\<bar>"
    using pos by (simp add: le_log_iff pow2_powr)
qed

lemma binade_mono:
  assumes "0 < x" and "x \<le> y"
  shows "binade x \<le> binade y"
proof -
  have "log 2 x \<le> log 2 y"
    using assms by simp
  then have "\<lfloor>log 2 x\<rfloor> \<le> \<lfloor>log 2 y\<rfloor>"
    by (rule floor_mono)
  with assms show ?thesis
    by (simp add: binade_def)
qed

text \<open>Rounding does not pass a double above.\<close>

lemma rd64_le_double:
  assumes "0 < x" and "x \<le> y" and "rd64 y = y"
  shows "rd64 x \<le> y"
proof -
  let ?ex = "binade x" and ?ey = "binade y"
  let ?qx = "pow2 (?ex - 52)" and ?qy = "pow2 (?ey - 52)"
  have ypos: "0 < y"
    using assms by simp
  have rx: "rd64 x = ?qx * of_int (round_even (x / ?qx))"
    using assms(1) by (simp add: rd64_def Let_def)
  have le: "?ex \<le> ?ey"
    using assms(1,2) by (rule binade_mono)
  show ?thesis
  proof (cases "?ex = ?ey")
    case True
    have "y = ?qy * of_int (round_even (y / ?qy))"
      using assms(3) ypos by (simp add: rd64_def Let_def)
    then have "y / ?qy = of_int (round_even (y / ?qy))"
      using pow2_pos [of "?ey - 52"] by (simp add: field_simps)
    moreover have "x / ?qy \<le> y / ?qy"
      using assms(2) pow2_pos [of "?ey - 52"] by (simp add: divide_right_mono)
    ultimately have "round_even (x / ?qy) \<le> round_even (y / ?qy)"
      by (intro round_even_le) simp
    then have "?qy * of_int (round_even (x / ?qy)) \<le> ?qy * of_int (round_even (y / ?qy))"
      using pow2_pos [of "?ey - 52"] by simp
    with True rx \<open>y = ?qy * of_int (round_even (y / ?qy))\<close> show ?thesis
      by simp
  next
    case False
    with le have lt: "?ex + 1 \<le> ?ey"
      by simp
    have "- 1022 \<le> ?ex"
      by (simp add: binade_def)
    with lt have big: "- 1022 < ?ey"
      by simp
    have p53: "pow2 53 = 2 ^ 53"
      by (simp add: pow2_def)
    have next_binade: "pow2 (?ex + 1) = ?qx * 2 ^ 53"
      using pow2_add [of "?ex - 52" 53] by (simp add: p53 add.commute)
    have "x < pow2 (?ex + 1)"
      using binade_bounds(1) [of x] assms(1) by simp
    also note next_binade
    finally have "x / ?qx \<le> of_int (2 ^ 53)"
      using pow2_pos [of "?ex - 52"] by (simp add: field_simps)
    then have "round_even (x / ?qx) \<le> 2 ^ 53"
      by (rule round_even_le)
    then have "of_int (round_even (x / ?qx)) \<le> (2 ^ 53 :: real)"
      by (metis of_int_le_iff of_int_numeral of_int_power)
    then have "rd64 x \<le> ?qx * 2 ^ 53"
      using pow2_pos [of "?ex - 52"] by (simp add: rx)
    also have "\<dots> = pow2 (?ex + 1)"
      by (simp only: next_binade)
    also have "\<dots> \<le> pow2 ?ey"
      using lt by (rule pow2_mono)
    also have "\<dots> \<le> y"
      using binade_bounds(2) [of y] big ypos by simp
    finally show ?thesis .
  qed
qed

text \<open>Rounding changes a number by at most half a unit in the last place.\<close>

lemma round_even_error: "\<bar>of_int (round_even r) - r\<bar> \<le> 1 / 2"
  unfolding round_even_def Let_def
  by (auto simp: abs_le_iff)

lemma half_ulp_nonneg: "0 \<le> half_ulp x"
  by (simp add: half_ulp_def pow2_pos less_imp_le)

lemma rd64_error: "\<bar>rd64 x - x\<bar> \<le> half_ulp x"
proof (cases "x = 0")
  case True
  then show ?thesis
    by (simp add: half_ulp_def)
next
  case False
  let ?q = "pow2 (binade x - 52)"
  have q: "0 < ?q"
    by (rule pow2_pos)
  have half: "pow2 (binade x - 53) = ?q / 2"
    using pow2_add [of "binade x - 52" "- 1"] by (simp add: pow2_def)
  have "rd64 x - x = ?q * (of_int (round_even (x / ?q)) - x / ?q)"
    using False q by (simp add: rd64_def Let_def right_diff_distrib)
  then have "\<bar>rd64 x - x\<bar> = ?q * \<bar>of_int (round_even (x / ?q)) - x / ?q\<bar>"
    using q by (simp add: abs_mult)
  also have "\<dots> \<le> ?q * (1 / 2)"
    using q round_even_error [of "x / ?q"] by (intro mult_left_mono) simp_all
  finally show ?thesis
    using False by (simp add: half_ulp_def half)
qed

subsection \<open>Polar coordinates\<close>

lemma displaced_distance:
  assumes "\<bar>ex\<bar> \<le> hx" and "\<bar>ez\<bar> \<le> hz"
  shows "sqrt ((a + ex)\<^sup>2 + (b + ez)\<^sup>2) \<le> sqrt (a\<^sup>2 + b\<^sup>2) + hx + hz"
proof -
  have "sqrt ((a + ex)\<^sup>2 + (b + ez)\<^sup>2) \<le> sqrt (a\<^sup>2 + b\<^sup>2) + sqrt (ex\<^sup>2 + ez\<^sup>2)"
    by (rule real_sqrt_sum_squares_triangle_ineq)
  also have "sqrt (ex\<^sup>2 + ez\<^sup>2) \<le> \<bar>ex\<bar> + \<bar>ez\<bar>"
    by (rule sqrt_sum_squares_le_sum_abs)
  finally show ?thesis
    using assms by simp
qed

lemma polar_norm: "sqrt ((a * d)\<^sup>2 + (b * d)\<^sup>2) = \<bar>d\<bar> * sqrt (a\<^sup>2 + b\<^sup>2)"
proof -
  have "(a * d)\<^sup>2 + (b * d)\<^sup>2 = d\<^sup>2 * (a\<^sup>2 + b\<^sup>2)"
    by (simp add: power_mult_distrib distrib_left mult.commute)
  then show ?thesis
    by (simp add: real_sqrt_mult)
qed



lemma polar_norm_le:
  assumes "a\<^sup>2 + b\<^sup>2 \<le> 1"
  shows "sqrt ((a * d)\<^sup>2 + (b * d)\<^sup>2) \<le> \<bar>d\<bar>"
proof -
  have "(a * d)\<^sup>2 + (b * d)\<^sup>2 = (a\<^sup>2 + b\<^sup>2) * d\<^sup>2"
    by (simp only: power_mult_distrib distrib_right)
  also have "\<dots> \<le> 1 * d\<^sup>2"
    using assms by (intro mult_right_mono) simp_all
  finally have "(a * d)\<^sup>2 + (b * d)\<^sup>2 \<le> d\<^sup>2"
    by simp
  then have "sqrt ((a * d)\<^sup>2 + (b * d)\<^sup>2) \<le> sqrt (d\<^sup>2)"
    by (rule real_sqrt_le_mono)
  then show ?thesis
    by simp
qed

text \<open>The drawn distance lies between 0 and a non-negative radius that is a double.\<close>

lemma random_distance_bounds:
  assumes "0 \<le> patrol_radius (cfg w)"
    and "rd64 (patrol_radius (cfg w)) = patrol_radius (cfg w)"
    and "0 \<le> rnd2" and "rnd2 < 1"
  shows "0 \<le> random_distance rnd2 w" and "random_distance rnd2 w \<le> patrol_radius (cfg w)"
proof -
  let ?r = "patrol_radius (cfg w)"
  have nonneg: "0 \<le> rnd2 * ?r"
    using assms(1,3) by simp
  have "rnd2 * ?r \<le> 1 * ?r"
    using assms(1,4) by (intro mult_right_mono) simp_all
  then have below: "rnd2 * ?r \<le> ?r"
    by simp
  show "0 \<le> random_distance rnd2 w"
    using nonneg by (simp add: random_distance_def rd64_nonneg)
  show "random_distance rnd2 w \<le> ?r"
  proof (cases "rnd2 * ?r = 0")
    case True
    then have "rd64 (rnd2 * ?r) = 0"
      by (simp only: rd64_0)
    with assms(1) show ?thesis
      by (simp only: random_distance_def)
  next
    case False
    have "0 < rnd2 * ?r \<longleftrightarrow> 0 \<le> rnd2 * ?r \<and> 0 \<noteq> rnd2 * ?r"
      by (rule less_le)
    with nonneg False have "0 < rnd2 * ?r"
      by metis
    from rd64_le_double [OF this below assms(2)] show ?thesis
      by (simp add: random_distance_def)
  qed
qed

text \<open>
  The distance of the random point from the center: the drawn distance, scaled by the
  length of the returned (cosine, sine), plus the four rounding errors.
\<close>

lemma point_distance_bound:
  assumes "center (botState w) = Some c"
    and "0 \<le> patrol_radius (cfg w)" and "rd64 (patrol_radius (cfg w)) = patrol_radius (cfg w)"
    and "0 \<le> rnd2" and "rnd2 < 1"
    and "getRandomPoint rt rnd1 rnd2 w = Inr p"
  shows "xz_distance p c
           \<le> patrol_radius (cfg w)
               * sqrt ((Math_cos rt (random_angle rnd1))\<^sup>2 + (Math_sin rt (random_angle rnd1))\<^sup>2)
             + (half_ulp (Math_cos rt (random_angle rnd1) * random_distance rnd2 w)
                + half_ulp (px c + rd64 (Math_cos rt (random_angle rnd1) * random_distance rnd2 w)))
             + (half_ulp (Math_sin rt (random_angle rnd1) * random_distance rnd2 w)
                + half_ulp (pz c + rd64 (Math_sin rt (random_angle rnd1) * random_distance rnd2 w)))"
proof -
  let ?co = "Math_cos rt (random_angle rnd1)" and ?si = "Math_sin rt (random_angle rnd1)"
  let ?d = "random_distance rnd2 w"
  let ?a = "?co * ?d" and ?b = "?si * ?d"
  let ?ex = "rd64 (px c + rd64 ?a) - px c - ?a" and ?ez = "rd64 (pz c + rd64 ?b) - pz c - ?b"
  have p: "p = \<lparr> px = rd64 (px c + rd64 ?a), py = py c, pz = rd64 (pz c + rd64 ?b) \<rparr>"
    using assms(1,6) by (simp add: getRandomPoint_def Let_def)
  have d: "0 \<le> ?d" "?d \<le> patrol_radius (cfg w)"
    using random_distance_bounds [OF assms(2-5)] by simp_all
  have "?ex = (rd64 (px c + rd64 ?a) - (px c + rd64 ?a)) + (rd64 ?a - ?a)"
    by simp
  then have ex: "\<bar>?ex\<bar> \<le> half_ulp ?a + half_ulp (px c + rd64 ?a)"
    using rd64_error [of "px c + rd64 ?a"] rd64_error [of ?a] by linarith
  have "?ez = (rd64 (pz c + rd64 ?b) - (pz c + rd64 ?b)) + (rd64 ?b - ?b)"
    by simp
  then have ez: "\<bar>?ez\<bar> \<le> half_ulp ?b + half_ulp (pz c + rd64 ?b)"
    using rd64_error [of "pz c + rd64 ?b"] rd64_error [of ?b] by linarith
  have "xz_distance p c = sqrt ((?a + ?ex)\<^sup>2 + (?b + ?ez)\<^sup>2)"
    by (simp add: p xz_distance_def)
  also have "\<dots> \<le> sqrt (?a\<^sup>2 + ?b\<^sup>2) + (half_ulp ?a + half_ulp (px c + rd64 ?a))
                 + (half_ulp ?b + half_ulp (pz c + rd64 ?b))"
    using ex ez by (rule displaced_distance)
  also have "sqrt (?a\<^sup>2 + ?b\<^sup>2) = ?d * sqrt (?co\<^sup>2 + ?si\<^sup>2)"
    using d(1) by (simp add: polar_norm)
  also have "?d * sqrt (?co\<^sup>2 + ?si\<^sup>2) \<le> patrol_radius (cfg w) * sqrt (?co\<^sup>2 + ?si\<^sup>2)"
    using d(2) by (intro mult_right_mono) simp_all
  finally show ?thesis
    by simp
qed

subsection \<open>Some doubles\<close>

lemma rd64_samples:
  "rd64 5 = 5" "rd64 9 = 9" "rd64 16 = 16" "rd64 20 = 20" "rd64 25 = 25" "rd64 30 = 30"
  "rd64 36 = 36"
  "rd64 50 = 50" "rd64 60 = 60" "rd64 64 = 64" "rd64 100 = 100" "rd64 101 = 101"
  "rd64 640 = 640" "rd64 1010 = 1010" "rd64 10000 = 10000"
  using rd64_eval [of 2 5] rd64_eval [of 3 9] rd64_eval [of 4 16] rd64_eval [of 4 20]
    rd64_eval [of 4 25] rd64_eval [of 4 30] rd64_eval [of 5 36] rd64_eval [of 5 50] rd64_eval [of 5 60]
    rd64_eval [of 6 64] rd64_eval [of 6 100] rd64_eval [of 6 101] rd64_eval [of 9 640]
    rd64_eval [of 9 1010] rd64_eval [of 13 10000]
  by (simp_all add: round_even_def pow2_def)

text \<open>
  The double nearest to 0.1: ten times it rounds to 1, and a tenth of 1 rounds to it. It
  is more than 6 away from the double nearest to - 5.9, and their difference rounds to 6.
\<close>

lemma rd64_tenth:
  "rd64 (3602879701896397 / 36028797018963968 * 10) = 1"
  "rd64 (18014398509481985 / 18014398509481984) = 1"
  "rd64 (1 / 10) = 3602879701896397 / 36028797018963968"
  "rd64 (3602879701896397 / 36028797018963968 - - 3321404725185741 / 562949953421312) = 6"
  "rd64 (216172782113783821 / 36028797018963968) = 6"
  using rd64_eval [of 0 "3602879701896397 / 36028797018963968 * 10"]
    rd64_eval [of 0 "18014398509481985 / 18014398509481984"]
    rd64_eval [of "- 4" "1 / 10"]
    rd64_eval [of 2 "3602879701896397 / 36028797018963968 - - 3321404725185741 / 562949953421312"]
    rd64_eval [of 2 "216172782113783821 / 36028797018963968"]
  by (simp_all add: round_even_def pow2_def)

lemma sqrt_samples: "sqrt 4 = 2" "sqrt 25 = 5" "sqrt 36 = 6" "sqrt 10000 = 100"
  by (rule real_sqrt_unique; simp)+

subsection \<open>Effect lists\<close>

lemma scheduled_append: "scheduled (a @ b) = scheduled a @ scheduled b"
  by (induction a rule: scheduled.induct) simp_all

lemma responses_append: "responses (a @ b) = responses a @ responses b"
  by (induction a rule: responses.induct) simp_all

subsection \<open>What the patrol loop leaves unchanged\<close>

text \<open>A run of the patrol code writes nothing but \<^verbatim>\<open>botState.currentTarget\<close>.\<close>

lemma patrol_catch_frame: "patrol_catch e pre w = (fx, w', k) \<Longrightarrow> w' = w \<and> k = Done"
  by (auto simp: patrol_catch_def split: if_splits)

lemma moveToPosition_begin_frame:
  "moveToPosition_begin t w = Inr (fx, w', pending) \<Longrightarrow>
     w' = w\<lparr>botState := (botState w)\<lparr>currentTarget := currentTarget (botState w')\<rparr>\<rparr>"
  unfolding moveToPosition_begin_def
  by (auto split: option.splits if_splits)

lemma patrol_frame:
  "patrol rt rnd1 rnd2 w = (fx, w', k) \<Longrightarrow>
     w' = w\<lparr>botState := (botState w)\<lparr>currentTarget := currentTarget (botState w')\<rparr>\<rparr>"
  unfolding patrol_def patrol_try_begin_def
  by (auto split: option.splits if_splits sum.splits prod.splits
        dest: patrol_catch_frame moveToPosition_begin_frame)

lemma moveToCenter_begin_frame:
  "moveToCenter_begin w = Inr (fx, w', pending) \<Longrightarrow>
     w' = w\<lparr>botState := (botState w)\<lparr>currentTarget := currentTarget (botState w')\<rparr>\<rparr>"
  unfolding moveToCenter_begin_def
  by (auto split: option.splits sum.splits prod.splits dest: moveToPosition_begin_frame)

lemma patrol_resume_frame:
  "patrol_resume rt k g rnd1 rnd2 w = (fx, w', k') \<Longrightarrow>
     w' = w\<lparr>botState := (botState w)\<lparr>currentTarget := currentTarget (botState w')\<rparr>\<rparr>"
  unfolding patrol_resume_def
  by (cases k)
     (auto split: option.splits if_splits sum.splits prod.splits
        dest: patrol_catch_frame moveToCenter_begin_frame patrol_frame)

lemma frame_fields:
  "w' = w\<lparr>botState := (botState w)\<lparr>currentTarget := t\<rparr>\<rparr> \<Longrightarrow>
     connected (botState w') = connected (botState w)
     \<and> isPatrolling (botState w') = isPatrolling (botState w)
     \<and> switchingServers (botState w') = switchingServers (botState w)
     \<and> center (botState w') = center (botState w)
     \<and> bot w' = bot w \<and> cfg w' = cfg w \<and> config_json w' = config_json w"
  by simp

lemmas patrol_fields = patrol_frame [THEN frame_fields]
lemmas patrol_resume_fields = patrol_resume_frame [THEN frame_fields]
lemmas moveToCenter_begin_fields = moveToCenter_begin_frame [THEN frame_fields]

lemma startPatrolling_flags:
  "startPatrolling rt rnd1 rnd2 w = (fx, w', k) \<Longrightarrow>
     connected (botState w') = connected (botState w)
     \<and> isPatrolling (botState w') = (connected (botState w) \<or> isPatrolling (botState w))
     \<and> switchingServers (botState w') = switchingServers (botState w)"
  unfolding startPatrolling_def
  by (auto split: if_splits prod.splits dest!: patrol_fields)

subsection \<open>What the patrol loop emits\<close>

text \<open>The patrol code sends no HTTP response, and the only timer it sets is its own retry.\<close>

lemma patrol_catch_effects:
  "patrol_catch e pre w = (fx, w', k) \<Longrightarrow>
     responses fx = responses pre
     \<and> scheduled fx = scheduled pre
          @ (if connected (botState w) \<and> isPatrolling (botState w) then [(3000, PatrolRetry)] else [])"
  by (auto simp: patrol_catch_def responses_append scheduled_append split: if_splits)

lemma moveToPosition_begin_effects:
  "moveToPosition_begin t w = Inr (fx, w', pending) \<Longrightarrow> responses fx = [] \<and> scheduled fx = []"
  unfolding moveToPosition_begin_def
  by (auto split: option.splits if_splits)

lemma moveToPosition_end_effects:
  "moveToPosition_end t g = Inr fx \<Longrightarrow> responses fx = [] \<and> scheduled fx = []"
  unfolding moveToPosition_end_def
  by (auto split: goto_result.splits)

lemma moveToCenter_begin_effects:
  "moveToCenter_begin w = Inr (fx, w', pending) \<Longrightarrow> responses fx = [] \<and> scheduled fx = []"
  "moveToCenter_begin w = Inl (e, pre) \<Longrightarrow> responses pre = [] \<and> scheduled pre = []"
  unfolding moveToCenter_begin_def
  by (auto split: option.splits sum.splits prod.splits dest: moveToPosition_begin_effects)

lemma patrol_try_begin_effects:
  "patrol_try_begin rt rnd1 rnd2 w = Inr (fx, w', k) \<Longrightarrow> responses fx = [] \<and> scheduled fx = []"
  "patrol_try_begin rt rnd1 rnd2 w = Inl (e, pre) \<Longrightarrow> responses pre = [] \<and> scheduled pre = []"
  unfolding patrol_try_begin_def
  by (auto simp: responses_append scheduled_append
        split: option.splits sum.splits prod.splits if_splits
        dest: moveToPosition_begin_effects)

lemma patrol_effects:
  "patrol rt rnd1 rnd2 w = (fx, w', k) \<Longrightarrow>
     responses fx = []
     \<and> (scheduled fx = [] \<or> scheduled fx = [(3000, PatrolRetry)])"
  unfolding patrol_def
  by (auto split: if_splits sum.splits prod.splits
        dest!: patrol_try_begin_effects patrol_catch_effects)

lemma patrol_try_resume_effects:
  "patrol_try_resume rt k g rnd1 rnd2 w = Inl (e, pre) \<Longrightarrow> responses pre = [] \<and> scheduled pre = []"
  by (cases k)
     (auto simp: responses_append scheduled_append
        split: option.splits sum.splits prod.splits if_splits
        dest: moveToCenter_begin_effects)

lemma startPatrolling_effects:
  "startPatrolling rt rnd1 rnd2 w = (fx, w', k) \<Longrightarrow> responses fx = []"
  unfolding startPatrolling_def
  by (auto split: if_splits prod.splits dest!: patrol_effects)

subsection \<open>The connection flags under every event\<close>

lemma createNewBot_botState:
  "createNewBot created w = Inr (fx, w') \<Longrightarrow> botState w' = botState w"
  by (auto simp: createNewBot_def split: option.splits)

lemma timer_fires_flags:
  "timer_fires rt cb rnd1 rnd2 created w = (fx, w', k) \<Longrightarrow>
     connected (botState w') = connected (botState w)
     \<and> isPatrolling (botState w')
         = (isPatrolling (botState w) \<or> cb = AutoStartPatrol \<and> connected (botState w))
     \<and> switchingServers (botState w') = switchingServers (botState w)"
proof (cases cb)
  case AutoStartPatrol
  assume tf: "timer_fires rt cb rnd1 rnd2 created w = (fx, w', k)"
  obtain fx0 where "startPatrolling rt rnd1 rnd2 w = (fx0, w', k)"
    using tf AutoStartPatrol by (auto split: prod.splits)
  from startPatrolling_flags [OF this] AutoStartPatrol show ?thesis
    by auto
next
  case PatrolRetry
  assume "timer_fires rt cb rnd1 rnd2 created w = (fx, w', k)"
  with PatrolRetry have "patrol rt rnd1 rnd2 w = (fx, w', k)"
    by simp
  from patrol_fields [OF this] PatrolRetry show ?thesis
    by simp
qed (auto simp: Let_def split: sum.splits prod.splits dest!: createNewBot_botState)

lemma on_move_flags:
  "connected (botState (snd (on_move rt entity w))) = connected (botState w)
   \<and> isPatrolling (botState (snd (on_move rt entity w))) = isPatrolling (botState w)
   \<and> switchingServers (botState (snd (on_move rt entity w))) = switchingServers (botState w)"
  by (simp add: on_move_def Let_def split: option.splits)

lemma api_set_center_flags:
  "connected (botState (snd (api_set_center b w))) = connected (botState w)
   \<and> isPatrolling (botState (snd (api_set_center b w))) = isPatrolling (botState w)
   \<and> switchingServers (botState (snd (api_set_center b w))) = switchingServers (botState w)"
  unfolding api_set_center_def
  by (auto simp: Let_def split: option.splits json.splits sum.splits prod.splits
        dest!: moveToCenter_begin_fields)

lemma api_update_server_flags:
  "(connected (botState (snd (api_update_server b write_ok w))) \<longrightarrow> connected (botState w))
   \<and> (isPatrolling (botState (snd (api_update_server b write_ok w)))
        \<longrightarrow> isPatrolling (botState w)
            \<and> connected (botState (snd (api_update_server b write_ok w))) = connected (botState w))
   \<and> (switchingServers (botState w)
        \<longrightarrow> switchingServers (botState (snd (api_update_server b write_ok w))))"
  unfolding api_update_server_def
  by (simp add: Let_def split: option.splits json.splits)

lemma api_toggle_patrol_flags:
  "connected (botState (snd (api_toggle_patrol rt rnd1 rnd2 w))) = connected (botState w)
   \<and> isPatrolling (botState (snd (api_toggle_patrol rt rnd1 rnd2 w)))
       = (\<not> isPatrolling (botState w) \<and> connected (botState w))
   \<and> switchingServers (botState (snd (api_toggle_patrol rt rnd1 rnd2 w)))
       = switchingServers (botState w)"
proof (cases "isPatrolling (botState w)")
  case True
  then show ?thesis
    by (simp add: api_toggle_patrol_def stopPatrolling_def)
next
  case False
  obtain fx w' k where sp: "startPatrolling rt rnd1 rnd2 w = (fx, w', k)"
    by (cases "startPatrolling rt rnd1 rnd2 w") auto
  from False startPatrolling_flags [OF sp] sp show ?thesis
    by (simp add: api_toggle_patrol_def)
qed

text \<open>A step that clears connected clears isPatrolling.\<close>

lemma step_clears_both:
  "connected (botState w) \<Longrightarrow> \<not> connected (botState (snd (step rt e w)))
     \<Longrightarrow> \<not> isPatrolling (botState (snd (step rt e w)))"
proof (cases e)
  case (TimerFires cb rnd1 rnd2 created)
  obtain fx w' k where tf: "timer_fires rt cb rnd1 rnd2 created w = (fx, w', k)"
    by (cases "timer_fires rt cb rnd1 rnd2 created w") auto
  assume "connected (botState w)" "\<not> connected (botState (snd (step rt e w)))"
  with TimerFires timer_fires_flags [OF tf] tf show ?thesis
    by simp
next
  case (PatrolResumes k g rnd1 rnd2)
  obtain fx w' k' where pr: "patrol_resume rt k g rnd1 rnd2 w = (fx, w', k')"
    by (cases "patrol_resume rt k g rnd1 rnd2 w") auto
  assume "connected (botState w)" "\<not> connected (botState (snd (step rt e w)))"
  with PatrolResumes patrol_resume_fields [OF pr] pr show ?thesis
    by simp
next
  case (UpdateServerRequest b write_ok)
  assume "connected (botState w)" "\<not> connected (botState (snd (step rt e w)))"
  with UpdateServerRequest api_update_server_flags [of b write_ok w] show ?thesis
    by auto
qed (auto simp: on_spawn_def on_error_def on_end_def Let_def on_move_flags on_health_def
       updatePlayerList_def api_set_center_flags api_toggle_patrol_flags api_disconnect_def
       split: if_splits)

text \<open>A step that sets isPatrolling leaves the bot connected.\<close>

lemma step_starts_connected:
  "\<not> isPatrolling (botState w) \<Longrightarrow> isPatrolling (botState (snd (step rt e w)))
     \<Longrightarrow> connected (botState (snd (step rt e w)))"
proof (cases e)
  case (TimerFires cb rnd1 rnd2 created)
  obtain fx w' k where tf: "timer_fires rt cb rnd1 rnd2 created w = (fx, w', k)"
    by (cases "timer_fires rt cb rnd1 rnd2 created w") auto
  assume "\<not> isPatrolling (botState w)" "isPatrolling (botState (snd (step rt e w)))"
  with TimerFires timer_fires_flags [OF tf] tf show ?thesis
    by simp
next
  case (PatrolResumes k g rnd1 rnd2)
  obtain fx w' k' where pr: "patrol_resume rt k g rnd1 rnd2 w = (fx, w', k')"
    by (cases "patrol_resume rt k g rnd1 rnd2 w") auto
  assume "\<not> isPatrolling (botState w)" "isPatrolling (botState (snd (step rt e w)))"
  with PatrolResumes patrol_resume_fields [OF pr] pr show ?thesis
    by simp
next
  case (UpdateServerRequest b write_ok)
  assume "\<not> isPatrolling (botState w)" "isPatrolling (botState (snd (step rt e w)))"
  with UpdateServerRequest api_update_server_flags [of b write_ok w] show ?thesis
    by auto
qed (auto simp: on_spawn_def on_error_def on_end_def Let_def on_move_flags on_health_def
       updatePlayerList_def api_set_center_flags api_toggle_patrol_flags api_disconnect_def
       split: if_splits)

lemma step_preserves_invariant:
  assumes "isPatrolling (botState w) \<longrightarrow> connected (botState w)"
  shows "isPatrolling (botState (snd (step rt e w))) \<longrightarrow> connected (botState (snd (step rt e w)))"
  using assms step_clears_both [of w rt e] step_starts_connected [of w rt e]
  by blast

lemma run_preserves_invariant:
  "isPatrolling (botState w) \<longrightarrow> connected (botState w) \<Longrightarrow>
     isPatrolling (botState (run rt es w)) \<longrightarrow> connected (botState (run rt es w))"
proof (induction es arbitrary: w)
  case Nil
  then show ?case by simp
next
  case (Cons e es)
  from Cons.IH [OF step_preserves_invariant [OF Cons.prems]] show ?case
    by simp
qed

lemma step_keeps_switching:
  "e \<noteq> End \<Longrightarrow> switchingServers (botState w) \<Longrightarrow> switchingServers (botState (snd (step rt e w)))"
proof (cases e)
  case (TimerFires cb rnd1 rnd2 created)
  obtain fx w' k where tf: "timer_fires rt cb rnd1 rnd2 created w = (fx, w', k)"
    by (cases "timer_fires rt cb rnd1 rnd2 created w") auto
  assume "switchingServers (botState w)"
  with TimerFires timer_fires_flags [OF tf] tf show ?thesis
    by simp
next
  case (PatrolResumes k g rnd1 rnd2)
  obtain fx w' k' where pr: "patrol_resume rt k g rnd1 rnd2 w = (fx, w', k')"
    by (cases "patrol_resume rt k g rnd1 rnd2 w") auto
  assume "switchingServers (botState w)"
  with PatrolResumes patrol_resume_fields [OF pr] pr show ?thesis
    by simp
next
  case (UpdateServerRequest b write_ok)
  assume "switchingServers (botState w)"
  with UpdateServerRequest api_update_server_flags [of b write_ok w] show ?thesis
    by auto
qed (auto simp: on_spawn_def Let_def on_error_def on_move_flags on_health_def
       updatePlayerList_def api_set_center_flags api_toggle_patrol_flags api_disconnect_def)

lemma run_keeps_switching:
  "End \<notin> set es \<Longrightarrow> switchingServers (botState w) \<Longrightarrow> switchingServers (botState (run rt es w))"
proof (induction es arbitrary: w)
  case Nil
  then show ?case by simp
next
  case (Cons e es)
  from Cons.prems have "e \<noteq> End" and rest: "End \<notin> set es"
    by auto
  from Cons.IH [OF rest step_keeps_switching [OF \<open>e \<noteq> End\<close> Cons.prems(2)]] show ?case
    by simp
qed

subsection \<open>The three outcomes of a server update\<close>

lemma valid_hostD: "valid_host v \<Longrightarrow> \<exists>h. v = Some (JStr h) \<and> trim h \<noteq> [] \<and> h \<noteq> []"
  by (cases v rule: valid_host.cases) (auto simp: trim_def)

lemma valid_portD: "valid_port v \<Longrightarrow> \<exists>p. v = Some (JNum p) \<and> 1 \<le> p \<and> p \<le> 65535"
  by (cases v rule: valid_port.cases) auto

lemma update_server_accepts:
  assumes "b ''host'' = Some (JStr h)" and "trim h \<noteq> []"
    and "b ''port'' = Some (JNum p)" and "1 \<le> p" and "p \<le> 65535"
  shows "api_update_server b True w =
           (WriteConfig ((cfg w)\<lparr>server_host := trim h, server_port := p\<rparr>)
              # (case bot w of None \<Rightarrow> []
                 | Some bh \<Rightarrow> [Log (SwitchingToServer h p), Quit ''Switching servers''])
              @ [SetTimeout 2000 ConnectNewServer,
                 Respond 200 (SuccessMessage ''Server updated successfully'')],
            w\<lparr>cfg := (cfg w)\<lparr>server_host := trim h, server_port := p\<rparr>,
              config_json := (cfg w)\<lparr>server_host := trim h, server_port := p\<rparr>,
              botState := (case bot w of
                             None \<Rightarrow> (botState w)\<lparr>switchingServers := True\<rparr>
                           | Some bh \<Rightarrow> (botState w)\<lparr>switchingServers := True,
                                          connected := False, isPatrolling := False\<rparr>)\<rparr>)"
proof -
  from assms(2) have "h \<noteq> []"
    by (auto simp: trim_def)
  with assms show ?thesis
    by (simp add: api_update_server_def Let_def split: option.splits)
qed

lemma update_server_write_fails:
  assumes "b ''host'' = Some (JStr h)" and "trim h \<noteq> []"
    and "b ''port'' = Some (JNum p)" and "1 \<le> p" and "p \<le> 65535"
  shows "api_update_server b False w =
           ([Log (UpdateServerFailed WriteFailed),
             Respond 500 (ErrorReply ''Failed to update server configuration'')],
            w\<lparr>cfg := (cfg w)\<lparr>server_host := trim h, server_port := p\<rparr>\<rparr>)"
proof -
  from assms(2) have "h \<noteq> []"
    by (auto simp: trim_def)
  with assms show ?thesis
    by (simp add: api_update_server_def Let_def)
qed

lemma update_server_rejects:
  assumes "\<not> (valid_host (b ''host'') \<and> valid_port (b ''port''))"
  shows "\<exists>msg. api_update_server b write_ok w = ([Respond 400 (ErrorReply msg)], w)"
proof (cases "valid_host (b ''host'')")
  case False
  then show ?thesis
    by (cases "b ''host''" rule: valid_host.cases)
       (auto simp: api_update_server_def)
next
  case True
  with assms have np: "\<not> valid_port (b ''port'')"
    by simp
  from valid_hostD [OF True] obtain h
    where h: "b ''host'' = Some (JStr h)" "trim h \<noteq> []" "h \<noteq> []"
    by auto
  from np h show ?thesis
    by (cases "b ''port''" rule: valid_port.cases)
       (auto simp: api_update_server_def)
qed

subsection \<open>The segments of a patrol invocation\<close>

lemma patrol_begins:
  assumes "connected (botState w)" and "isPatrolling (botState w)"
    and "bot w = Some bh" and "pathfinder bh"
    and "getRandomPoint rt rnd1 rnd2 w = Inr p"
  shows "patrol rt rnd1 rnd2 w =
           ([Log (PatrollingTo p), Goto p],
            w\<lparr>botState := (botState w)\<lparr>currentTarget := Some p\<rparr>\<rparr>, AwaitGotoPoint p)"
  using assms by (simp add: patrol_def patrol_try_begin_def moveToPosition_begin_def)

lemma resume_after_goto:
  assumes "g \<noteq> RejectedNullish"
  shows "\<exists>l. patrol_resume rt (AwaitGotoPoint q) g rnd1 rnd2 w
               = ([Log l, Log ReachedPatrolPoint, Sleep 2000], w, AwaitSleep2000)"
    and "\<exists>l. patrol_resume rt (AwaitGotoCenter q) g rnd1 rnd2 w
               = ([Log l, Log ReturnedToCenter, Sleep 3000], w, AwaitSleep3000)"
  using assms by (cases g; simp add: patrol_resume_def moveToPosition_end_def)+

lemma resume_after_sleep2000:
  assumes "center (botState w) = Some c" and "bot w = Some bh" and "pathfinder bh"
  shows "patrol_resume rt AwaitSleep2000 g rnd1 rnd2 w =
           ([Log ReturningToCenter, Log (MovingToCenter c), Goto c],
            w\<lparr>botState := (botState w)\<lparr>currentTarget := Some c\<rparr>\<rparr>, AwaitGotoCenter c)"
  using assms
  by (simp add: patrol_resume_def moveToCenter_begin_def moveToPosition_begin_def)

lemma resume_after_sleep3000:
  "patrol_resume rt AwaitSleep3000 g rnd1 rnd2 w =
     (if connected (botState w) \<and> isPatrolling (botState w)
      then (Log ContinuingPatrol # fst (patrol rt rnd1 rnd2 w), snd (patrol rt rnd1 rnd2 w))
      else ([Log (PatrolLoopEnded (connected (botState w)) (isPatrolling (botState w)))],
            w, Done))"
  by (simp add: patrol_resume_def split: prod.splits)

subsection \<open>The claims\<close>

text \<open>
  Claim C1. An invocation of \<^verbatim>\<open>patrol\<close> that starts on a connected, patrolling bot with the
  pathfinder, and whose two gotos do not reject with a nullish value, does this, in this
  order, whatever the other handlers do in between (as long as a center and a bot with the
  pathfinder are there when it returns to the center): it logs and starts the goto to the
  random point; when that has settled it sleeps 2000 ms; then it logs and starts the goto
  to the center of that moment; when that has settled it sleeps 3000 ms; then, if the bot
  is still connected and patrolling, it calls \<^verbatim>\<open>patrol\<close> again, and logs the end of the loop
  otherwise. When the try block throws, at a resumption or at the start, the invocation
  ends in the catch block: the error is logged and then either the retry timer is set
  or the reason for not retrying is logged.
\<close>

theorem patrol_iteration_order:
  "(connected (botState w) \<and> isPatrolling (botState w)
      \<and> bot w = Some bh \<and> pathfinder bh
      \<and> getRandomPoint rt rnd1 rnd2 w = Inr p
      \<and> g1 \<noteq> RejectedNullish \<and> g3 \<noteq> RejectedNullish
      \<and> w2 = f2 (f1 (w\<lparr>botState := (botState w)\<lparr>currentTarget := Some p\<rparr>\<rparr>))
      \<and> center (botState w2) = Some c \<and> bot w2 = Some bh2 \<and> pathfinder bh2
      \<and> w4 = f4 (f3 (w2\<lparr>botState := (botState w2)\<lparr>currentTarget := Some c\<rparr>\<rparr>))
    \<longrightarrow>
      (\<exists>l1 l3.
         fst (patrol_run rt [(f1, g1, r1, s1), (f2, g2, r2, s2), (f3, g3, r3, s3), (f4, g4, r4, s4)]
                (patrol rt rnd1 rnd2 w))
           = [Log (PatrollingTo p), Goto p,
              Log l1, Log ReachedPatrolPoint, Sleep 2000,
              Log ReturningToCenter, Log (MovingToCenter c), Goto c,
              Log l3, Log ReturnedToCenter, Sleep 3000]
             @ (if connected (botState w4) \<and> isPatrolling (botState w4)
                then Log ContinuingPatrol # fst (patrol rt r4 s4 w4)
                else [Log (PatrolLoopEnded (connected (botState w4))
                             (isPatrolling (botState w4)))])))
   \<and> (patrol_try_resume rt k g rnd1 rnd2 w = Inl (e, pre) \<longrightarrow>
        (\<exists>rest. patrol_resume rt k g rnd1 rnd2 w = (pre @ Log (PatrolError e) # rest, w, Done)
           \<and> (rest = [Log RetryingPatrol, SetTimeout 3000 PatrolRetry]
                \<or> (\<exists>c' p'. rest = [Log (NotRetryingPatrol c' p')]))))
   \<and> (connected (botState w) \<and> isPatrolling (botState w)
        \<and> patrol_try_begin rt rnd1 rnd2 w = Inl (e, pre) \<longrightarrow>
        patrol rt rnd1 rnd2 w
          = (pre @ [Log (PatrolError e), Log RetryingPatrol, SetTimeout 3000 PatrolRetry],
             w, Done))"
proof (intro conjI impI)
  assume a: "connected (botState w) \<and> isPatrolling (botState w)
      \<and> bot w = Some bh \<and> pathfinder bh
      \<and> getRandomPoint rt rnd1 rnd2 w = Inr p
      \<and> g1 \<noteq> RejectedNullish \<and> g3 \<noteq> RejectedNullish
      \<and> w2 = f2 (f1 (w\<lparr>botState := (botState w)\<lparr>currentTarget := Some p\<rparr>\<rparr>))
      \<and> center (botState w2) = Some c \<and> bot w2 = Some bh2 \<and> pathfinder bh2
      \<and> w4 = f4 (f3 (w2\<lparr>botState := (botState w2)\<lparr>currentTarget := Some c\<rparr>\<rparr>))"
  let ?w1 = "f1 (w\<lparr>botState := (botState w)\<lparr>currentTarget := Some p\<rparr>\<rparr>)"
  let ?w3 = "f3 (w2\<lparr>botState := (botState w2)\<lparr>currentTarget := Some c\<rparr>\<rparr>)"
  from a have st: "connected (botState w)" "isPatrolling (botState w)" "bot w = Some bh"
      "pathfinder bh" "getRandomPoint rt rnd1 rnd2 w = Inr p"
    and g: "g1 \<noteq> RejectedNullish" "g3 \<noteq> RejectedNullish"
    and home: "center (botState w2) = Some c" "bot w2 = Some bh2" "pathfinder bh2"
    and w2: "f2 ?w1 = w2" and w4: "f4 ?w3 = w4"
    by blast+
  from st have s0: "patrol rt rnd1 rnd2 w =
           ([Log (PatrollingTo p), Goto p],
            w\<lparr>botState := (botState w)\<lparr>currentTarget := Some p\<rparr>\<rparr>, AwaitGotoPoint p)"
    by (rule patrol_begins)
  from g resume_after_goto(1) [of g1 rt p r1 s1 ?w1] obtain l1
    where s1: "patrol_resume rt (AwaitGotoPoint p) g1 r1 s1 ?w1
                 = ([Log l1, Log ReachedPatrolPoint, Sleep 2000], ?w1, AwaitSleep2000)"
    by auto
  from home have s2: "patrol_resume rt AwaitSleep2000 g2 r2 s2 w2 =
           ([Log ReturningToCenter, Log (MovingToCenter c), Goto c],
            w2\<lparr>botState := (botState w2)\<lparr>currentTarget := Some c\<rparr>\<rparr>, AwaitGotoCenter c)"
    by (rule resume_after_sleep2000)
  from g resume_after_goto(2) [of g3 rt c r3 s3 ?w3] obtain l3
    where s3: "patrol_resume rt (AwaitGotoCenter c) g3 r3 s3 ?w3
                 = ([Log l3, Log ReturnedToCenter, Sleep 3000], ?w3, AwaitSleep3000)"
    by auto
  have "fst (patrol_run rt [(f1, g1, r1, s1), (f2, g2, r2, s2), (f3, g3, r3, s3), (f4, g4, r4, s4)]
                (patrol rt rnd1 rnd2 w))
           = [Log (PatrollingTo p), Goto p,
              Log l1, Log ReachedPatrolPoint, Sleep 2000,
              Log ReturningToCenter, Log (MovingToCenter c), Goto c,
              Log l3, Log ReturnedToCenter, Sleep 3000]
             @ (if connected (botState w4) \<and> isPatrolling (botState w4)
                then Log ContinuingPatrol # fst (patrol rt r4 s4 w4)
                else [Log (PatrolLoopEnded (connected (botState w4))
                             (isPatrolling (botState w4)))])"
    by (simp add: s0 s1 w2 s2 s3 w4 resume_after_sleep3000)
  then show "\<exists>l1 l3.
         fst (patrol_run rt [(f1, g1, r1, s1), (f2, g2, r2, s2), (f3, g3, r3, s3), (f4, g4, r4, s4)]
                (patrol rt rnd1 rnd2 w))
           = [Log (PatrollingTo p), Goto p,
              Log l1, Log ReachedPatrolPoint, Sleep 2000,
              Log ReturningToCenter, Log (MovingToCenter c), Goto c,
              Log l3, Log ReturnedToCenter, Sleep 3000]
             @ (if connected (botState w4) \<and> isPatrolling (botState w4)
                then Log ContinuingPatrol # fst (patrol rt r4 s4 w4)
                else [Log (PatrolLoopEnded (connected (botState w4))
                             (isPatrolling (botState w4)))])"
    by blast
next
  assume "patrol_try_resume rt k g rnd1 rnd2 w = Inl (e, pre)"
  then show "\<exists>rest. patrol_resume rt k g rnd1 rnd2 w = (pre @ Log (PatrolError e) # rest, w, Done)
           \<and> (rest = [Log RetryingPatrol, SetTimeout 3000 PatrolRetry]
                \<or> (\<exists>c' p'. rest = [Log (NotRetryingPatrol c' p')]))"
    by (simp add: patrol_resume_def patrol_catch_def)
next
  assume "connected (botState w) \<and> isPatrolling (botState w)
        \<and> patrol_try_begin rt rnd1 rnd2 w = Inl (e, pre)"
  then show "patrol rt rnd1 rnd2 w
          = (pre @ [Log (PatrolError e), Log RetryingPatrol, SetTimeout 3000 PatrolRetry],
             w, Done)"
    by (simp add: patrol_def patrol_catch_def)
qed

theorem patrol_iteration_order_witness:
  "fst (patrol_run correctly_rounded [(id, Reached, 0, 0), (id, Reached, 0, 0), (id, Rejected ''stuck'', 0, 0),
                    (id, Reached, 0, 0)]
          (patrol correctly_rounded 0 (1 / 2) sample_patrolling_world))
     = [Log (PatrollingTo \<lparr> px = 3, py = 2, pz = 3 \<rparr>), Goto \<lparr> px = 3, py = 2, pz = 3 \<rparr>,
        Log (ReachedPosition \<lparr> px = 3, py = 2, pz = 3 \<rparr>), Log ReachedPatrolPoint, Sleep 2000,
        Log ReturningToCenter, Log (MovingToCenter \<lparr> px = 1, py = 2, pz = 3 \<rparr>),
        Goto \<lparr> px = 1, py = 2, pz = 3 \<rparr>,
        Log (MovementError ''stuck''), Log ReturnedToCenter, Sleep 3000,
        Log ContinuingPatrol,
        Log (PatrollingTo \<lparr> px = 1, py = 2, pz = 3 \<rparr>), Goto \<lparr> px = 1, py = 2, pz = 3 \<rparr>]
   \<and> fst (patrol_run correctly_rounded [(id, Reached, 0, 0), (id, Reached, 0, 0), (id, Reached, 0, 0),
                      (snd \<circ> on_end, Reached, 0, 0)]
            (patrol correctly_rounded 0 (1 / 2) sample_patrolling_world))
     = [Log (PatrollingTo \<lparr> px = 3, py = 2, pz = 3 \<rparr>), Goto \<lparr> px = 3, py = 2, pz = 3 \<rparr>,
        Log (ReachedPosition \<lparr> px = 3, py = 2, pz = 3 \<rparr>), Log ReachedPatrolPoint, Sleep 2000,
        Log ReturningToCenter, Log (MovingToCenter \<lparr> px = 1, py = 2, pz = 3 \<rparr>),
        Goto \<lparr> px = 1, py = 2, pz = 3 \<rparr>,
        Log (ReachedPosition \<lparr> px = 1, py = 2, pz = 3 \<rparr>), Log ReturnedToCenter, Sleep 3000,
        Log (PatrolLoopEnded False False)]
   \<and> patrol_resume correctly_rounded (AwaitGotoCenter \<lparr> px = 1, py = 2, pz = 3 \<rparr>) RejectedNullish 0 0
         sample_patrolling_world
     = ([Log (PatrolError TypeError), Log RetryingPatrol, SetTimeout 3000 PatrolRetry],
        sample_patrolling_world, Done)
   \<and> patrol correctly_rounded 0 0 (sample_patrolling_world\<lparr>bot := None\<rparr>)
     = ([Log (PatrollingTo \<lparr> px = 1, py = 2, pz = 3 \<rparr>), Log (PatrolError TypeError),
         Log RetryingPatrol, SetTimeout 3000 PatrolRetry],
        sample_patrolling_world\<lparr>bot := None\<rparr>, Done)"
  using patrol_iteration_order
          [where rt = correctly_rounded and w = sample_patrolling_world
             and bh = "\<lparr> pathfinder = True \<rparr>"
             and ?rnd1.0 = 0 and ?rnd2.0 = "1 / 2" and p = "\<lparr> px = 3, py = 2, pz = 3 \<rparr>"
             and ?g1.0 = Reached and ?g2.0 = Reached and ?g3.0 = "Rejected ''stuck''"
             and ?g4.0 = Reached and ?f1.0 = id and ?f2.0 = id and ?f3.0 = id and ?f4.0 = id
             and c = "\<lparr> px = 1, py = 2, pz = 3 \<rparr>" and ?bh2.0 = "\<lparr> pathfinder = True \<rparr>"
             and ?w2.0 = "sample_patrolling_world\<lparr>botState := (botState sample_patrolling_world)
                            \<lparr>currentTarget := Some \<lparr> px = 3, py = 2, pz = 3 \<rparr>\<rparr>\<rparr>"
             and ?w4.0 = "sample_patrolling_world\<lparr>botState := (botState sample_patrolling_world)
                            \<lparr>currentTarget := Some \<lparr> px = 1, py = 2, pz = 3 \<rparr>\<rparr>\<rparr>"
             and ?r1.0 = 0 and ?s1.0 = 0 and ?r2.0 = 0 and ?s2.0 = 0 and ?r3.0 = 0 and ?s3.0 = 0
             and ?r4.0 = 0 and ?s4.0 = 0
             and k = "AwaitGotoCenter \<lparr> px = 1, py = 2, pz = 3 \<rparr>" and g = RejectedNullish
             and e = TypeError and pre = "[]"]
        patrol_iteration_order
          [where rt = correctly_rounded and w = "sample_patrolling_world\<lparr>bot := None\<rparr>"
             and ?rnd1.0 = 0 and ?rnd2.0 = 0
             and e = TypeError and pre = "[Log (PatrollingTo \<lparr> px = 1, py = 2, pz = 3 \<rparr>)]"]
  by (simp add: sample_patrolling_world_def sample_world_def initial_botState_def
        sample_config_def patrol_def patrol_try_begin_def getRandomPoint_def
        random_angle_def random_distance_def correctly_rounded_def
        moveToPosition_begin_def moveToPosition_end_def moveToCenter_begin_def
        patrol_resume_def patrol_catch_def on_end_def Let_def)







text \<open>
  Claim C4. The end handler leaves the bot disconnected and not patrolling; it sets the one
  timer of 5000 ms for the reconnect exactly when \<^verbatim>\<open>switchingServers\<close> was false, and sets no
  timer when it was true; the flag is false afterwards. The reconnect callback calls
  \<^verbatim>\<open>createNewBot\<close>. A server-switch request with a valid host and port whose file write
  returns leaves the flag set (and has quit the bot, if there is one); whatever events
  other than the end of the connection come next, the end handler then sets no timer.
\<close>

theorem end_reconnect_handling:
  "\<not> connected (botState (snd (on_end w)))
   \<and> \<not> isPatrolling (botState (snd (on_end w)))
   \<and> scheduled (fst (on_end w)) = (if switchingServers (botState w) then [] else [(5000, Reconnect)])
   \<and> \<not> switchingServers (botState (snd (on_end w)))
   \<and> fst (timer_fires rt Reconnect rnd1 rnd2 (Some bh) w)
       = [Log AttemptingReconnect, CreateBot (server_host (cfg w)) (server_port (cfg w))]
   \<and> (valid_host (b ''host'') \<and> valid_port (b ''port'') \<and> End \<notin> set es \<longrightarrow>
        switchingServers (botState (snd (api_update_server b True w)))
        \<and> (bot w \<noteq> None \<longrightarrow> Quit ''Switching servers'' \<in> set (fst (api_update_server b True w)))
        \<and> scheduled (fst (on_end (run rt es (snd (api_update_server b True w))))) = [])"
proof -
  have ended: "scheduled (fst (on_end v))
                 = (if switchingServers (botState v) then [] else [(5000, Reconnect)])" for v
    by (simp add: on_end_def Let_def)
  have switch: "switchingServers (botState (snd (api_update_server b True w)))
        \<and> (bot w \<noteq> None \<longrightarrow> Quit ''Switching servers'' \<in> set (fst (api_update_server b True w)))
        \<and> scheduled (fst (on_end (run rt es (snd (api_update_server b True w))))) = []"
    if valid: "valid_host (b ''host'')" "valid_port (b ''port'')" and es: "End \<notin> set es"
  proof -
    from valid_hostD [OF valid(1)] obtain h where h: "b ''host'' = Some (JStr h)" "trim h \<noteq> []"
      by auto
    from valid_portD [OF valid(2)] obtain p
      where p: "b ''port'' = Some (JNum p)" "1 \<le> p" "p \<le> 65535"
      by auto
    have flag: "switchingServers (botState (snd (api_update_server b True w)))"
      by (simp add: update_server_accepts [OF h p] split: option.splits)
    have quit: "bot w \<noteq> None \<longrightarrow> Quit ''Switching servers'' \<in> set (fst (api_update_server b True w))"
      by (auto simp: update_server_accepts [OF h p])
    from run_keeps_switching [OF es flag] flag quit show ?thesis
      by (simp add: ended)
  qed
  show ?thesis
    using switch by (simp add: ended) (simp add: on_end_def Let_def createNewBot_def)
qed

theorem end_reconnect_handling_witness:
  "valid_host (sample_server_request ''host'') \<and> valid_port (sample_server_request ''port'')
   \<and> End \<notin> set [Move None, Health 20 20]
   \<and> bot sample_patrolling_world \<noteq> None
   \<and> switchingServers (botState (snd (api_update_server sample_server_request True
                                         sample_patrolling_world)))
   \<and> Quit ''Switching servers''
       \<in> set (fst (api_update_server sample_server_request True sample_patrolling_world))
   \<and> scheduled (fst (on_end (run correctly_rounded [Move None, Health 20 20]
        (snd (api_update_server sample_server_request True sample_patrolling_world))))) = []
   \<and> scheduled (fst (on_end sample_patrolling_world)) = [(5000, Reconnect)]"
  using end_reconnect_handling
          [where rt = correctly_rounded and w = sample_patrolling_world and ?rnd1.0 = 0
             and ?rnd2.0 = 0 and bh = "\<lparr> pathfinder = True \<rparr>" and b = sample_server_request
             and es = "[Move None, Health 20 20]"]
  by (simp add: sample_server_request_def sample_patrolling_world_def sample_world_def
        trim_def js_whitespace_def initial_botState_def)

text \<open>
  Claim C5. When the try block throws (no handler runs between the resumption and the
  catch, so the state is the one of the resumption), the catch block logs the error and
  sets the one timer of 3000 ms for \<^verbatim>\<open>patrol\<close> exactly when the bot is connected and
  patrolling; otherwise it sets no timer. In both cases the invocation is over. At the
  start of an invocation the guard has just passed, so a throw there always sets the
  timer. The timer's callback is \<^verbatim>\<open>patrol\<close>.
\<close>

theorem patrol_retry_on_error:
  "(patrol_try_resume rt k g rnd1 rnd2 w = Inl (e, pre) \<longrightarrow>
      patrol_resume rt k g rnd1 rnd2 w =
        (pre @ Log (PatrolError e)
           # (if connected (botState w) \<and> isPatrolling (botState w)
              then [Log RetryingPatrol, SetTimeout 3000 PatrolRetry]
              else [Log (NotRetryingPatrol (connected (botState w)) (isPatrolling (botState w)))]),
         w, Done)
      \<and> scheduled (fst (patrol_resume rt k g rnd1 rnd2 w))
          = (if connected (botState w) \<and> isPatrolling (botState w)
             then [(3000, PatrolRetry)] else []))
   \<and> (connected (botState w) \<and> isPatrolling (botState w)
        \<and> patrol_try_begin rt rnd1 rnd2 w = Inl (e, pre) \<longrightarrow>
      patrol rt rnd1 rnd2 w
        = (pre @ [Log (PatrolError e), Log RetryingPatrol, SetTimeout 3000 PatrolRetry], w, Done)
      \<and> scheduled (fst (patrol rt rnd1 rnd2 w)) = [(3000, PatrolRetry)])
   \<and> timer_fires rt PatrolRetry rnd1 rnd2 created w = patrol rt rnd1 rnd2 w"
proof (intro conjI impI)
  assume thrown: "patrol_try_resume rt k g rnd1 rnd2 w = Inl (e, pre)"
  then show caught: "patrol_resume rt k g rnd1 rnd2 w =
        (pre @ Log (PatrolError e)
           # (if connected (botState w) \<and> isPatrolling (botState w)
              then [Log RetryingPatrol, SetTimeout 3000 PatrolRetry]
              else [Log (NotRetryingPatrol (connected (botState w)) (isPatrolling (botState w)))]),
         w, Done)"
    by (simp add: patrol_resume_def patrol_catch_def)
  from patrol_try_resume_effects [OF thrown]
  show "scheduled (fst (patrol_resume rt k g rnd1 rnd2 w))
          = (if connected (botState w) \<and> isPatrolling (botState w)
             then [(3000, PatrolRetry)] else [])"
    by (simp add: caught scheduled_append)
next
  assume a: "connected (botState w) \<and> isPatrolling (botState w)
        \<and> patrol_try_begin rt rnd1 rnd2 w = Inl (e, pre)"
  then show caught: "patrol rt rnd1 rnd2 w
        = (pre @ [Log (PatrolError e), Log RetryingPatrol, SetTimeout 3000 PatrolRetry], w, Done)"
    by (simp add: patrol_def patrol_catch_def)
  from a have "patrol_try_begin rt rnd1 rnd2 w = Inl (e, pre)"
    by simp
  from patrol_try_begin_effects(2) [OF this]
  show "scheduled (fst (patrol rt rnd1 rnd2 w)) = [(3000, PatrolRetry)]"
    by (simp add: caught scheduled_append)
next
  show "timer_fires rt PatrolRetry rnd1 rnd2 created w = patrol rt rnd1 rnd2 w"
    by simp
qed

theorem patrol_retry_on_error_witness:
  "patrol_try_resume correctly_rounded (AwaitGotoPoint \<lparr> px = 3, py = 2, pz = 3 \<rparr>) RejectedNullish 0 0
       sample_patrolling_world = Inl (TypeError, [])
   \<and> scheduled (fst (patrol_resume correctly_rounded (AwaitGotoPoint \<lparr> px = 3, py = 2, pz = 3 \<rparr>) RejectedNullish 0 0
                       sample_patrolling_world)) = [(3000, PatrolRetry)]
   \<and> patrol_try_resume correctly_rounded (AwaitGotoPoint \<lparr> px = 3, py = 2, pz = 3 \<rparr>) RejectedNullish 0 0
       sample_world = Inl (TypeError, [])
   \<and> patrol_resume correctly_rounded (AwaitGotoPoint \<lparr> px = 3, py = 2, pz = 3 \<rparr>) RejectedNullish 0 0 sample_world
       = ([Log (PatrolError TypeError), Log (NotRetryingPatrol True False)], sample_world, Done)
   \<and> patrol_try_begin correctly_rounded 0 0 (sample_patrolling_world\<lparr>bot := None\<rparr>)
       = Inl (TypeError, [Log (PatrollingTo \<lparr> px = 1, py = 2, pz = 3 \<rparr>)])
   \<and> scheduled (fst (patrol correctly_rounded 0 0 (sample_patrolling_world\<lparr>bot := None\<rparr>))) = [(3000, PatrolRetry)]"
  using patrol_retry_on_error
          [where rt = correctly_rounded and k = "AwaitGotoPoint \<lparr> px = 3, py = 2, pz = 3 \<rparr>"
             and g = RejectedNullish and ?rnd1.0 = 0 and ?rnd2.0 = 0
             and w = sample_patrolling_world and e = TypeError and pre = "[]"]
        patrol_retry_on_error
          [where rt = correctly_rounded and k = "AwaitGotoPoint \<lparr> px = 3, py = 2, pz = 3 \<rparr>"
             and g = RejectedNullish and ?rnd1.0 = 0 and ?rnd2.0 = 0
             and w = sample_world and e = TypeError and pre = "[]"]
        patrol_retry_on_error
          [where rt = correctly_rounded and k = "AwaitGotoPoint \<lparr> px = 3, py = 2, pz = 3 \<rparr>"
             and g = RejectedNullish and ?rnd1.0 = 0 and ?rnd2.0 = 0
             and w = "sample_patrolling_world\<lparr>bot := None\<rparr>" and e = TypeError
             and pre = "[Log (PatrollingTo \<lparr> px = 1, py = 2, pz = 3 \<rparr>)]"]
  by (simp add: moveToPosition_end_def sample_patrolling_world_def sample_world_def
        initial_botState_def sample_config_def patrol_try_begin_def getRandomPoint_def
        random_angle_def random_distance_def correctly_rounded_def moveToPosition_begin_def)

text \<open>
  Claim C6. POST /api/set-center: when x, y and z of the body are all numbers, the center
  becomes exactly that point and the one response is a success that carries it; when one
  of them is missing or not a number, the one response is a 400 error and nothing changes.
\<close>

theorem set_center_validation:
  "(b ''x'' = Some (JNum x) \<and> b ''y'' = Some (JNum y) \<and> b ''z'' = Some (JNum z) \<longrightarrow>
      center (botState (snd (api_set_center b w))) = Some \<lparr> px = x, py = y, pz = z \<rparr>
      \<and> responses (fst (api_set_center b w))
          = [(200, SuccessCenter (Some \<lparr> px = x, py = y, pz = z \<rparr>))])
   \<and> ((\<forall>v. b ''x'' \<noteq> Some (JNum v)) \<or> (\<forall>v. b ''y'' \<noteq> Some (JNum v))
        \<or> (\<forall>v. b ''z'' \<noteq> Some (JNum v)) \<longrightarrow>
      api_set_center b w = ([Respond 400 (ErrorReply ''Invalid coordinates'')], w))"
proof (intro conjI impI)
  assume ok: "b ''x'' = Some (JNum x) \<and> b ''y'' = Some (JNum y) \<and> b ''z'' = Some (JNum z)"
  let ?w1 = "w\<lparr>botState := (botState w)\<lparr>center := Some \<lparr> px = x, py = y, pz = z \<rparr>\<rparr>\<rparr>"
  consider (thrown) e pre where "moveToCenter_begin ?w1 = Inl (e, pre)"
    | (started) fx w' pending where "moveToCenter_begin ?w1 = Inr (fx, w', pending)"
    by (cases "moveToCenter_begin ?w1") auto
  then have "center (botState (snd (api_set_center b w))) = Some \<lparr> px = x, py = y, pz = z \<rparr>
      \<and> responses (fst (api_set_center b w))
          = [(200, SuccessCenter (Some \<lparr> px = x, py = y, pz = z \<rparr>))]"
  proof cases
    case thrown
    with ok moveToCenter_begin_effects(2) [OF thrown] show ?thesis
      by (simp add: api_set_center_def responses_append)
  next
    case started
    with ok moveToCenter_begin_effects(1) [OF started] moveToCenter_begin_fields [OF started]
    show ?thesis
      by (simp add: api_set_center_def responses_append)
  qed
  then show "center (botState (snd (api_set_center b w))) = Some \<lparr> px = x, py = y, pz = z \<rparr>"
    and "responses (fst (api_set_center b w))
          = [(200, SuccessCenter (Some \<lparr> px = x, py = y, pz = z \<rparr>))]"
    by simp_all
next
  assume "(\<forall>v. b ''x'' \<noteq> Some (JNum v)) \<or> (\<forall>v. b ''y'' \<noteq> Some (JNum v))
        \<or> (\<forall>v. b ''z'' \<noteq> Some (JNum v))"
  then show "api_set_center b w = ([Respond 400 (ErrorReply ''Invalid coordinates'')], w)"
    by (auto simp: api_set_center_def split: option.splits json.splits)
qed

theorem set_center_validation_witness:
  "center (botState (snd (api_set_center sample_center_request sample_world)))
     = Some \<lparr> px = 10, py = 64, pz = - 5 \<rparr>
   \<and> responses (fst (api_set_center sample_center_request sample_world))
     = [(200, SuccessCenter (Some \<lparr> px = 10, py = 64, pz = - 5 \<rparr>))]
   \<and> api_set_center sample_bad_center_request sample_world
     = ([Respond 400 (ErrorReply ''Invalid coordinates'')], sample_world)"
  using set_center_validation [of sample_center_request 10 64 "- 5" sample_world]
        set_center_validation [of sample_bad_center_request 0 0 0 sample_world]
  by (simp add: sample_center_request_def sample_bad_center_request_def)




text \<open>
  Claim C8. In every state reachable from the initial one, a patrolling bot is connected.
  Every event preserves this: an event that takes \<^verbatim>\<open>connected\<close> from true to false leaves
  \<^verbatim>\<open>isPatrolling\<close> false, and an event that takes \<^verbatim>\<open>isPatrolling\<close> from false to true leaves
  the bot connected.
\<close>

theorem patrolling_implies_connected:
  "(isPatrolling (botState (run rt es (initial_world c)))
      \<longrightarrow> connected (botState (run rt es (initial_world c))))
   \<and> ((isPatrolling (botState w) \<longrightarrow> connected (botState w))
        \<longrightarrow> (isPatrolling (botState (snd (step rt e w)))
              \<longrightarrow> connected (botState (snd (step rt e w)))))
   \<and> (connected (botState w) \<and> \<not> connected (botState (snd (step rt e w)))
        \<longrightarrow> \<not> isPatrolling (botState (snd (step rt e w))))
   \<and> (\<not> isPatrolling (botState w) \<and> isPatrolling (botState (snd (step rt e w)))
        \<longrightarrow> connected (botState (snd (step rt e w))))"
proof -
  have "isPatrolling (botState (initial_world c)) \<longrightarrow> connected (botState (initial_world c))"
    by (simp add: initial_world_def initial_botState_def)
  from run_preserves_invariant [OF this]
  show ?thesis
    using step_preserves_invariant [of w rt e] step_clears_both [of w rt e]
      step_starts_connected [of w rt e]
    by blast
qed

lemma sample_run:
  "botState (run correctly_rounded sample_events (initial_world sample_config))
     = (initial_botState sample_config)
         \<lparr>connected := True, center := Some \<lparr> px = 0, py = 64, pz = 0 \<rparr>, isPatrolling := True,
          currentTarget := Some \<lparr> px = 2, py = 64, pz = 0 \<rparr>, serverConfigured := True,
          switchingServers := True\<rparr>"
  by (simp add: sample_events_def initial_world_def initial_botState_def sample_config_def
        api_update_server_def trim_def js_whitespace_def Let_def createNewBot_def on_spawn_def
        startPatrolling_def patrol_def patrol_try_begin_def getRandomPoint_def
        random_angle_def random_distance_def correctly_rounded_def moveToPosition_begin_def)

theorem patrolling_implies_connected_witness:
  "isPatrolling (botState (run correctly_rounded sample_events (initial_world sample_config)))
   \<and> connected (botState (run correctly_rounded sample_events (initial_world sample_config)))
   \<and> isPatrolling (botState sample_patrolling_world)
   \<and> connected (botState sample_patrolling_world)
   \<and> isPatrolling (botState (snd (step correctly_rounded (Move None) sample_patrolling_world)))
   \<and> connected (botState (snd (step correctly_rounded (Move None) sample_patrolling_world)))
   \<and> \<not> connected (botState (snd (step correctly_rounded End sample_patrolling_world)))
   \<and> \<not> isPatrolling (botState (snd (step correctly_rounded End sample_patrolling_world)))
   \<and> \<not> isPatrolling (botState sample_world)
   \<and> isPatrolling (botState (snd (step correctly_rounded (TogglePatrolRequest 0 (1 / 2)) sample_world)))
   \<and> connected (botState (snd (step correctly_rounded (TogglePatrolRequest 0 (1 / 2)) sample_world)))"
  using patrolling_implies_connected
          [where rt = correctly_rounded and es = sample_events and c = sample_config
             and w = sample_patrolling_world and e = "Move None"]
        patrolling_implies_connected
          [where rt = correctly_rounded and es = sample_events and c = sample_config
             and w = sample_patrolling_world and e = End]
        patrolling_implies_connected
          [where rt = correctly_rounded and es = sample_events and c = sample_config
             and w = sample_world and e = "TogglePatrolRequest 0 (1 / 2)"]
  by (simp add: sample_run sample_patrolling_world_def sample_world_def initial_botState_def
        on_move_def on_end_def Let_def api_toggle_patrol_flags)

text \<open>
  Claim C9, as stated, fails: when the connection ends between the spawn and the timer,
  the timer starts nothing.
\<close>

theorem spawn_then_end_counterexample:
  "scheduled (fst (step correctly_rounded (Spawn \<lparr> px = 0, py = 64, pz = 0 \<rparr>) sample_world))
     = [(2000, AutoStartPatrol)]
   \<and> \<not> isPatrolling (botState (run correctly_rounded
         [Spawn \<lparr> px = 0, py = 64, pz = 0 \<rparr>, End, TimerFires AutoStartPatrol 0 (1 / 2) None]
         sample_world))
   \<and> timer_fires correctly_rounded AutoStartPatrol 0 (1 / 2) None
         (run correctly_rounded [Spawn \<lparr> px = 0, py = 64, pz = 0 \<rparr>, End] sample_world)
       = ([Log AutoStartingPatrol],
          run correctly_rounded [Spawn \<lparr> px = 0, py = 64, pz = 0 \<rparr>, End] sample_world, Done)"
  by (simp add: sample_world_def on_spawn_def on_end_def Let_def startPatrolling_def
        initial_botState_def)

text \<open>
  Claim C9, amended. The spawn handler sets the center to the spawn position whatever the
  state was before (also right after a set-center request) and marks the bot connected.
  With the pathfinder loaded, as \<^verbatim>\<open>setupBotEvents\<close> arranges, it sets one timer of 2000 ms
  whose callback calls \<^verbatim>\<open>startPatrolling\<close>, with no user action. When the callback fires
  on a bot that is connected and not patrolling, the patrol starts: the flag is set and
  the first invocation of \<^verbatim>\<open>patrol\<close> runs (with a center and the pathfinder, up to the goto
  towards its random point); so it does in the state the spawn handler left on a bot that
  was not patrolling. When it fires on a bot that is no longer connected, or is patrolling
  already, it starts nothing and changes nothing.
\<close>

theorem spawn_resets_center:
  "center (botState (snd (on_spawn spawnPos w))) = Some spawnPos
   \<and> center (botState (snd (on_spawn spawnPos (snd (api_set_center b w))))) = Some spawnPos
   \<and> connected (botState (snd (on_spawn spawnPos w)))
   \<and> (bot w = Some bh \<and> pathfinder bh \<longrightarrow>
        scheduled (fst (on_spawn spawnPos w)) = [(2000, AutoStartPatrol)])
   \<and> (connected (botState v) \<and> \<not> isPatrolling (botState v) \<longrightarrow>
        timer_fires rt AutoStartPatrol rnd1 rnd2 created v
          = (Log AutoStartingPatrol # Log StartingPatrol
               # fst (patrol rt rnd1 rnd2 (v\<lparr>botState := (botState v)\<lparr>isPatrolling := True\<rparr>\<rparr>)),
             snd (patrol rt rnd1 rnd2 (v\<lparr>botState := (botState v)\<lparr>isPatrolling := True\<rparr>\<rparr>)))
        \<and> isPatrolling (botState (fst (snd (timer_fires rt AutoStartPatrol rnd1 rnd2 created v))))
        \<and> (bot v = Some bh \<and> pathfinder bh \<and> getRandomPoint rt rnd1 rnd2 v = Inr p \<longrightarrow>
             timer_fires rt AutoStartPatrol rnd1 rnd2 created v
               = ([Log AutoStartingPatrol, Log StartingPatrol, Log (PatrollingTo p), Goto p],
                  v\<lparr>botState := (botState v)\<lparr>isPatrolling := True, currentTarget := Some p\<rparr>\<rparr>,
                  AwaitGotoPoint p)))
   \<and> (bot w = Some bh \<and> pathfinder bh \<and> \<not> isPatrolling (botState w) \<longrightarrow>
        (\<exists>p. timer_fires rt AutoStartPatrol rnd1 rnd2 created (snd (on_spawn spawnPos w))
               = ([Log AutoStartingPatrol, Log StartingPatrol, Log (PatrollingTo p), Goto p],
                  w\<lparr>botState := (botState w)\<lparr>connected := True, center := Some spawnPos,
                                               isPatrolling := True, currentTarget := Some p\<rparr>\<rparr>,
                  AwaitGotoPoint p)))
   \<and> (\<not> connected (botState v) \<or> isPatrolling (botState v) \<longrightarrow>
        timer_fires rt AutoStartPatrol rnd1 rnd2 created v = ([Log AutoStartingPatrol], v, Done))"
proof (intro conjI impI)
  show "center (botState (snd (on_spawn spawnPos w))) = Some spawnPos"
    and "center (botState (snd (on_spawn spawnPos (snd (api_set_center b w))))) = Some spawnPos"
    and "connected (botState (snd (on_spawn spawnPos w)))"
    by (simp_all add: on_spawn_def Let_def)
next
  assume "bot w = Some bh \<and> pathfinder bh"
  then show "scheduled (fst (on_spawn spawnPos w)) = [(2000, AutoStartPatrol)]"
    by (simp add: on_spawn_def Let_def)
next
  assume idle: "connected (botState v) \<and> \<not> isPatrolling (botState v)"
  let ?v = "v\<lparr>botState := (botState v)\<lparr>isPatrolling := True\<rparr>\<rparr>"
  obtain fx v' k where pt: "patrol rt rnd1 rnd2 ?v = (fx, v', k)"
    by (cases "patrol rt rnd1 rnd2 ?v") auto
  from idle pt show fired: "timer_fires rt AutoStartPatrol rnd1 rnd2 created v
          = (Log AutoStartingPatrol # Log StartingPatrol # fst (patrol rt rnd1 rnd2 ?v),
             snd (patrol rt rnd1 rnd2 ?v))"
    by (simp add: startPatrolling_def)
  from patrol_fields [OF pt] pt
  show "isPatrolling (botState (fst (snd (timer_fires rt AutoStartPatrol rnd1 rnd2 created v))))"
    unfolding fired by simp
  assume "bot v = Some bh \<and> pathfinder bh \<and> getRandomPoint rt rnd1 rnd2 v = Inr p"
  then have "bot ?v = Some bh" "pathfinder bh" "getRandomPoint rt rnd1 rnd2 ?v = Inr p"
    by (simp_all add: getRandomPoint_def random_distance_def Let_def)
  from patrol_begins [OF _ _ this] idle
  have "patrol rt rnd1 rnd2 ?v
          = ([Log (PatrollingTo p), Goto p],
             ?v\<lparr>botState := (botState ?v)\<lparr>currentTarget := Some p\<rparr>\<rparr>, AwaitGotoPoint p)"
    by simp
  then show "timer_fires rt AutoStartPatrol rnd1 rnd2 created v
               = ([Log AutoStartingPatrol, Log StartingPatrol, Log (PatrollingTo p), Goto p],
                  v\<lparr>botState := (botState v)\<lparr>isPatrolling := True, currentTarget := Some p\<rparr>\<rparr>,
                  AwaitGotoPoint p)"
    unfolding fired by simp
next
  assume a: "bot w = Some bh \<and> pathfinder bh \<and> \<not> isPatrolling (botState w)"
  let ?s = "snd (on_spawn spawnPos w)"
  let ?v = "?s\<lparr>botState := (botState ?s)\<lparr>isPatrolling := True\<rparr>\<rparr>"
  obtain p where p: "getRandomPoint rt rnd1 rnd2 ?v = Inr p"
    by (simp add: getRandomPoint_def on_spawn_def Let_def)
  from a have "connected (botState ?v)" "isPatrolling (botState ?v)" "bot ?v = Some bh"
      "pathfinder bh"
    by (simp_all add: on_spawn_def Let_def)
  from patrol_begins [OF this p] a
  have "timer_fires rt AutoStartPatrol rnd1 rnd2 created ?s
               = ([Log AutoStartingPatrol, Log StartingPatrol, Log (PatrollingTo p), Goto p],
                  w\<lparr>botState := (botState w)\<lparr>connected := True, center := Some spawnPos,
                                               isPatrolling := True, currentTarget := Some p\<rparr>\<rparr>,
                  AwaitGotoPoint p)"
    by (simp add: startPatrolling_def on_spawn_def Let_def)
  then show "\<exists>p. timer_fires rt AutoStartPatrol rnd1 rnd2 created (snd (on_spawn spawnPos w))
               = ([Log AutoStartingPatrol, Log StartingPatrol, Log (PatrollingTo p), Goto p],
                  w\<lparr>botState := (botState w)\<lparr>connected := True, center := Some spawnPos,
                                               isPatrolling := True, currentTarget := Some p\<rparr>\<rparr>,
                  AwaitGotoPoint p)"
    by blast
next
  assume "\<not> connected (botState v) \<or> isPatrolling (botState v)"
  then show "timer_fires rt AutoStartPatrol rnd1 rnd2 created v = ([Log AutoStartingPatrol], v, Done)"
    by (auto simp: startPatrolling_def)
qed

theorem spawn_resets_center_witness:
  "bot sample_world = Some \<lparr> pathfinder = True \<rparr>
   \<and> \<not> isPatrolling (botState sample_world)
   \<and> scheduled (fst (on_spawn \<lparr> px = 0, py = 64, pz = 0 \<rparr> sample_world))
       = [(2000, AutoStartPatrol)]
   \<and> center (botState (snd (on_spawn \<lparr> px = 0, py = 64, pz = 0 \<rparr> sample_world)))
       = Some \<lparr> px = 0, py = 64, pz = 0 \<rparr>
   \<and> timer_fires correctly_rounded AutoStartPatrol 0 (1 / 2) None
         (snd (on_spawn \<lparr> px = 0, py = 64, pz = 0 \<rparr> sample_world))
       = ([Log AutoStartingPatrol, Log StartingPatrol,
           Log (PatrollingTo \<lparr> px = 2, py = 64, pz = 0 \<rparr>), Goto \<lparr> px = 2, py = 64, pz = 0 \<rparr>],
          sample_world\<lparr>botState := (botState sample_world)
            \<lparr>connected := True, center := Some \<lparr> px = 0, py = 64, pz = 0 \<rparr>,
             isPatrolling := True, currentTarget := Some \<lparr> px = 2, py = 64, pz = 0 \<rparr>\<rparr>\<rparr>,
          AwaitGotoPoint \<lparr> px = 2, py = 64, pz = 0 \<rparr>)
   \<and> timer_fires correctly_rounded AutoStartPatrol 0 (1 / 2) None
         (snd (on_end (snd (on_spawn \<lparr> px = 0, py = 64, pz = 0 \<rparr> sample_world))))
       = ([Log AutoStartingPatrol],
          snd (on_end (snd (on_spawn \<lparr> px = 0, py = 64, pz = 0 \<rparr> sample_world))), Done)"
  using spawn_resets_center
          [where rt = correctly_rounded and spawnPos = "\<lparr> px = 0, py = 64, pz = 0 \<rparr>"
             and w = sample_world and b = sample_center_request
             and bh = "\<lparr> pathfinder = True \<rparr>" and ?rnd1.0 = 0 and ?rnd2.0 = "1 / 2"
             and created = None and p = "\<lparr> px = 2, py = 64, pz = 0 \<rparr>"
             and v = "snd (on_spawn \<lparr> px = 0, py = 64, pz = 0 \<rparr> sample_world)"]
        spawn_resets_center
          [where rt = correctly_rounded and spawnPos = "\<lparr> px = 0, py = 64, pz = 0 \<rparr>"
             and w = sample_world and b = sample_center_request
             and bh = "\<lparr> pathfinder = True \<rparr>" and ?rnd1.0 = 0 and ?rnd2.0 = "1 / 2"
             and created = None and p = "\<lparr> px = 2, py = 64, pz = 0 \<rparr>"
             and v = "snd (on_end (snd (on_spawn \<lparr> px = 0, py = 64, pz = 0 \<rparr> sample_world)))"]
  by (simp add: sample_world_def sample_config_def initial_botState_def on_spawn_def on_end_def
        Let_def getRandomPoint_def random_angle_def random_distance_def correctly_rounded_def
        startPatrolling_def patrol_def patrol_try_begin_def moveToPosition_begin_def)

text \<open>
  Claim C10. POST /api/toggle-patrol: afterwards the bot is patrolling exactly when it was
  not patrolling and was connected. So a patrolling bot always stops, a connected idle bot
  starts, and a disconnected idle bot stays idle. The one response is a success in every
  case, and it carries the new value.
\<close>

theorem toggle_patrol_not_pure:
  "isPatrolling (botState (snd (api_toggle_patrol rt rnd1 rnd2 w)))
     = (\<not> isPatrolling (botState w) \<and> connected (botState w))
   \<and> responses (fst (api_toggle_patrol rt rnd1 rnd2 w))
     = [(200, SuccessPatrol (\<not> isPatrolling (botState w) \<and> connected (botState w)))]"
proof (cases "isPatrolling (botState w)")
  case True
  then show ?thesis
    by (simp add: api_toggle_patrol_def stopPatrolling_def)
next
  case False
  obtain fx w' k where sp: "startPatrolling rt rnd1 rnd2 w = (fx, w', k)"
    by (cases "startPatrolling rt rnd1 rnd2 w") auto
  from False startPatrolling_flags [OF sp] startPatrolling_effects [OF sp] sp
  show ?thesis
    by (simp add: api_toggle_patrol_def responses_append)
qed

end
